theory Spec2Isabelle
  imports Main
begin

section \<open>JavaScript values of the scheduler script\<close>

text \<open>
  A JavaScript string is a sequence of UTF-16 code units; \<open>length\<close> counts code units,
  as \<open>String.prototype.length\<close> does. ASCII literals of the script are written
  \<open>lit ''...''\<close>; other code units are given by number.
\<close>

type_synonym jsstring = "nat list"

definition lit :: "string \<Rightarrow> jsstring" where
  "lit s = map of_char s"

text \<open>A Date object holds a time value in milliseconds since the epoch, or NaN (\<open>None\<close>).\<close>

type_synonym jsdate = "int option"

text \<open>
  The values a spreadsheet cell (or a function argument) can hold. Numeric cells are
  modelled at integer values.
\<close>

datatype jsval =
    VUndefined
  | VNull
  | VBool bool
  | VNum int
  | VStr jsstring
  | VDate jsdate

text \<open>\<open>!v\<close> is \<open>\<not> truthy v\<close>: objects (also an Invalid Date) are truthy.\<close>

fun truthy :: "jsval \<Rightarrow> bool" where
  "truthy VUndefined = False"
| "truthy VNull = False"
| "truthy (VBool b) = b"
| "truthy (VNum n) = (n \<noteq> 0)"
| "truthy (VStr s) = (s \<noteq> [])"
| "truthy (VDate d) = True"

text \<open>
  The facilities of the host (Apps Script V8) the script calls and the repository does not
  contain: \<open>String.prototype.toLowerCase\<close> (the Unicode case mapping), \<open>Date.parse\<close>
  (\<open>None\<close> is NaN) and the offset of the script's time zone from UTC in minutes
  (taken as fixed).
\<close>

record runtime =
  toLowerCase :: "jsstring \<Rightarrow> jsstring"
  dateParse :: "jsstring \<Rightarrow> int option"
  tzMinutes :: int

section \<open>String primitives\<close>

text \<open>\<open>\s\<close> of a regular expression, and what \<open>trim\<close> removes: WhiteSpace and LineTerminator.\<close>

definition isLineTerminator :: "nat \<Rightarrow> bool" where
  "isLineTerminator c = (c = 10 \<or> c = 13 \<or> c = 8232 \<or> c = 8233)"

definition isWhiteSpace :: "nat \<Rightarrow> bool" where
  "isWhiteSpace c =
     (c = 9 \<or> c = 11 \<or> c = 12 \<or> c = 32 \<or> c = 160 \<or> c = 5760 \<or>
      (8192 \<le> c \<and> c \<le> 8202) \<or> c = 8239 \<or> c = 8287 \<or> c = 12288 \<or> c = 65279 \<or>
      isLineTerminator c)"

definition isDigit :: "nat \<Rightarrow> bool" where
  "isDigit c = (48 \<le> c \<and> c \<le> 57)"

definition isUpperAZ :: "nat \<Rightarrow> bool" where
  "isUpperAZ c = (65 \<le> c \<and> c \<le> 90)"

definition isLowerAZ :: "nat \<Rightarrow> bool" where
  "isLowerAZ c = (97 \<le> c \<and> c \<le> 122)"

definition isLetter :: "nat \<Rightarrow> bool" where
  "isLetter c = (isUpperAZ c \<or> isLowerAZ c)"

text \<open>The class \<open>[a-zA-Z0-9-]\<close>.\<close>

definition isHostChar :: "nat \<Rightarrow> bool" where
  "isHostChar c = (isLetter c \<or> isDigit c \<or> c = 45)"

text \<open>The class \<open>[!?.]\<close>.\<close>

definition isMark :: "nat \<Rightarrow> bool" where
  "isMark c = (c = 33 \<or> c = 63 \<or> c = 46)"

text \<open>The class \<open>[.,;:!?]\<close>.\<close>

definition isTrailingPunct :: "nat \<Rightarrow> bool" where
  "isTrailingPunct c = (c = 46 \<or> c = 44 \<or> c = 59 \<or> c = 58 \<or> c = 33 \<or> c = 63)"

text \<open>
  Case-insensitive comparison of a code unit with an ASCII letter or sign of a pattern
  under the \<open>i\<close> flag (without the \<open>u\<close> flag no code unit above 127 is folded onto an
  ASCII one).
\<close>

definition foldAZ :: "nat \<Rightarrow> nat" where
  "foldAZ c = (if isUpperAZ c then c + 32 else c)"

definition startsWith :: "jsstring \<Rightarrow> jsstring \<Rightarrow> bool" where
  "startsWith s p = (take (length p) s = p)"

definition startsWithCI :: "jsstring \<Rightarrow> jsstring \<Rightarrow> bool" where
  "startsWithCI s p = (map foldAZ (take (length p) s) = map foldAZ p)"

definition endsWith :: "jsstring \<Rightarrow> jsstring \<Rightarrow> bool" where
  "endsWith s p = (length p \<le> length s \<and> drop (length s - length p) s = p)"

text \<open>\<open>s.includes(sub)\<close>.\<close>

fun jsIncludes :: "jsstring \<Rightarrow> jsstring \<Rightarrow> bool" where
  "jsIncludes [] sub = (sub = [])"
| "jsIncludes (c # cs) sub = (startsWith (c # cs) sub \<or> jsIncludes cs sub)"

text \<open>\<open>s.trim()\<close>.\<close>

definition trim :: "jsstring \<Rightarrow> jsstring" where
  "trim s = rev (dropWhile isWhiteSpace (rev (dropWhile isWhiteSpace s)))"

text \<open>\<open>xs.join(sep)\<close>.\<close>

fun joinWith :: "jsstring \<Rightarrow> jsstring list \<Rightarrow> jsstring" where
  "joinWith sep [] = []"
| "joinWith sep [x] = x"
| "joinWith sep (x # y # ys) = x @ sep @ joinWith sep (y # ys)"

text \<open>The decimal rendering of a number in a template string.\<close>

function showNat :: "nat \<Rightarrow> jsstring" where
  "showNat n = (if n < 10 then [48 + n] else showNat (n div 10) @ [48 + n mod 10])"
  by pat_completeness auto
termination
  by (relation "measure id") auto

declare showNat.simps [simp del]

definition showInt :: "int \<Rightarrow> jsstring" where
  "showInt i = (if i < 0 then 45 # showNat (nat (- i)) else showNat (nat i))"

text \<open>A number that may be NaN, as a template string renders it.\<close>

definition showNum :: "int option \<Rightarrow> jsstring" where
  "showNum x = (case x of None \<Rightarrow> lit ''NaN'' | Some i \<Rightarrow> showInt i)"

text \<open>
  \<open>regex.test(s)\<close> for a pattern \<open>C{n,}\<close> over a character class \<open>C\<close>: some position
  starts a run of at least \<open>n\<close> members of the class.
\<close>

fun existsRun :: "(nat \<Rightarrow> bool) \<Rightarrow> nat \<Rightarrow> jsstring \<Rightarrow> bool" where
  "existsRun P n [] = (n = 0)"
| "existsRun P n (c # cs) = (n \<le> length (takeWhile P (c # cs)) \<or> existsRun P n cs)"

text \<open>
  \<open>/(.)\1{4,}/.test(s)\<close>: some code unit other than a line terminator is followed by at
  least four copies of itself.
\<close>

fun hasRepetition :: "jsstring \<Rightarrow> bool" where
  "hasRepetition [] = False"
| "hasRepetition (c # cs) =
     ((\<not> isLineTerminator c \<and> 4 \<le> length (takeWhile (\<lambda>x. x = c) cs)) \<or> hasRepetition cs)"

section \<open>Configuration\<close>

definition BLOCKED_DOMAINS :: "jsstring list" where
  "BLOCKED_DOMAINS =
     [lit ''bit.ly'', lit ''tinyurl.com'', lit ''t.co'', lit ''goo.gl'', lit ''short.link'',
      lit ''rebrand.ly'', lit ''cutt.ly'', lit ''t.me'']"

definition ALLOWED_DOMAINS :: "jsstring list" where
  "ALLOWED_DOMAINS = []"

definition STRICT_MODE :: bool where
  "STRICT_MODE = False"

definition MAX_MESSAGES_PER_HOUR :: int where
  "MAX_MESSAGES_PER_HOUR = 3"

definition MAX_MESSAGES_PER_DAY :: int where
  "MAX_MESSAGES_PER_DAY = 5"

definition MAX_MESSAGE_LENGTH :: nat where
  "MAX_MESSAGE_LENGTH = 4096"

definition MAX_URLS_PER_MESSAGE :: nat where
  "MAX_URLS_PER_MESSAGE = 10"

definition MAX_SUSPICIOUS_URLS :: nat where
  "MAX_SUSPICIOUS_URLS = 1"

definition SUSPICIOUS_KEYWORDS :: "jsstring list" where
  "SUSPICIOUS_KEYWORDS =
     [lit ''click here'', lit ''limited time'', lit ''act now'', lit ''urgent'',
      lit ''free money'', lit ''guaranteed'', lit ''no risk'', lit ''limited offer'',
      lit ''exclusive deal'', lit ''act fast'', lit ''don'' @ [39] @ lit ''t miss out'',
      lit ''one time only'',
      lit ''wichtiges update'', lit ''nutzen sie die gelegenheit'',
      lit ''solange sie noch besteht'', lit ''finanzielles wachstum'',
      lit ''verpassen sie sie nicht'', lit ''bevor der link abl'' @ [228] @ lit ''uft'',
      lit ''entscheidender wendepunkt'', lit ''finanzielle freiheit'',
      lit ''passives einkommen'', lit ''jetzt handeln'',
      lit ''begrenzte pl'' @ [228] @ lit ''tze'', lit ''exklusives angebot'',
      lit ''schnell reich'', lit ''geld verdienen'']"

definition REQUIRE_KEYWORD_VALIDATION :: bool where
  "REQUIRE_KEYWORD_VALIDATION = True"

definition REQUIRED_KEYWORDS :: "jsstring list" where
  "REQUIRED_KEYWORDS =
     [lit ''test'', lit ''montag'', lit ''montagtontag'', lit ''tontag'', lit ''glasiertag'',
      lit ''luma.com'', lit ''melde dich'', lit ''zeitslot'', lit ''aufbau'', lit ''abbau'',
      lit ''stornieren'', lit ''fertigen werke'', lit ''helfende h'' @ [228] @ lit ''nde'',
      lit ''t'' @ [246] @ lit ''pfern'', lit ''glasieren'']"

section \<open>Keyword and URL extraction\<close>

record keywordcheck =
  hasRequired :: bool
  foundKeywords :: "jsstring list"

definition hasRequiredKeywords :: "runtime \<Rightarrow> jsstring \<Rightarrow> keywordcheck" where
  "hasRequiredKeywords rt text =
     (if text = [] then \<lparr>hasRequired = False, foundKeywords = []\<rparr>
      else
        let lowerText = toLowerCase rt text;
            found = filter (\<lambda>keyword. jsIncludes lowerText (toLowerCase rt keyword))
                      REQUIRED_KEYWORDS
        in \<lparr>hasRequired = (length found > 0), foundKeywords = found\<rparr>)"

text \<open>The length of the run \<open>[^\s]*\<close> takes at the head of a string.\<close>

definition nonWsRun :: "jsstring \<Rightarrow> nat" where
  "nonWsRun s = length (takeWhile (\<lambda>c. \<not> isWhiteSpace c) s)"

text \<open>\<open>https?:\/\/\<close> under the \<open>i\<close> flag at the head of a string: the length it matches.\<close>

definition matchScheme :: "jsstring \<Rightarrow> nat option" where
  "matchScheme s =
     (if startsWithCI s (lit ''https://'') then Some 8
      else if startsWithCI s (lit ''http://'') then Some 7
      else None)"

text \<open>\<open>/https?:\/\/[^\s]+/i\<close> anchored at the head of a string: the length of the match.\<close>

definition matchHttpUrl :: "jsstring \<Rightarrow> nat option" where
  "matchHttpUrl s =
     (case matchScheme s of
        None \<Rightarrow> None
      | Some k \<Rightarrow> (let n = nonWsRun (drop k s) in if 1 \<le> n then Some (k + n) else None))"

text \<open>\<open>/www\.[^\s]+/i\<close> anchored at the head of a string.\<close>

definition matchWwwUrl :: "jsstring \<Rightarrow> nat option" where
  "matchWwwUrl s =
     (if startsWithCI s (lit ''www.'')
      then (let n = nonWsRun (drop 4 s) in if 1 \<le> n then Some (4 + n) else None)
      else None)"

text \<open>
  \<open>/[a-zA-Z0-9-]+\.[a-zA-Z]{2,}[^\s]*/i\<close> anchored at the head of a string. The greedy
  first run must be followed by the dot (a shorter run would need the dot at a member of
  the class), then at least two letters; the rest of the run of non-whitespace follows.
\<close>

definition matchBareDomain :: "jsstring \<Rightarrow> nat option" where
  "matchBareDomain s =
     (let r = length (takeWhile isHostChar s);
          l = length (takeWhile isLetter (drop (r + 1) s))
      in if 1 \<le> r \<and> take 1 (drop r s) = [46] \<and> 2 \<le> l
         then Some (r + 1 + l + nonWsRun (drop (r + 1 + l) s))
         else None)"

text \<open>The three alternatives of \<open>urlPattern\<close>, tried in order at one position.\<close>

definition matchUrlAt :: "jsstring \<Rightarrow> nat option" where
  "matchUrlAt s =
     (case matchHttpUrl s of
        Some n \<Rightarrow> Some n
      | None \<Rightarrow> (case matchWwwUrl s of Some n \<Rightarrow> Some n | None \<Rightarrow> matchBareDomain s))"

text \<open>
  \<open>text.match(pattern)\<close> with the \<open>g\<close> flag, for a pattern that matches at least one
  code unit: every position is tried from the left, and the search resumes behind a match.
  The counter is the number of code units of the current match still to pass.
\<close>

fun matchAll :: "(jsstring \<Rightarrow> nat option) \<Rightarrow> nat \<Rightarrow> jsstring \<Rightarrow> jsstring list" where
  "matchAll m k [] = []"
| "matchAll m k (c # cs) =
     (if k > 0 then matchAll m (k - 1) cs
      else (case m (c # cs) of
              Some n \<Rightarrow> take n (c # cs) # matchAll m (n - 1) cs
            | None \<Rightarrow> matchAll m 0 cs))"

text \<open>\<open>text.replace(pattern, '')\<close> with the \<open>g\<close> flag, for such a pattern.\<close>

fun removeAll :: "(jsstring \<Rightarrow> nat option) \<Rightarrow> nat \<Rightarrow> jsstring \<Rightarrow> jsstring" where
  "removeAll m k [] = []"
| "removeAll m k (c # cs) =
     (if k > 0 then removeAll m (k - 1) cs
      else (case m (c # cs) of
              Some n \<Rightarrow> removeAll m (n - 1) cs
            | None \<Rightarrow> c # removeAll m 0 cs))"

text \<open>\<open>url.replace(/[.,;:!?]+$/, '')\<close>.\<close>

definition stripTrailingPunct :: "jsstring \<Rightarrow> jsstring" where
  "stripTrailingPunct url = rev (dropWhile isTrailingPunct (rev url))"

definition normalizeUrl :: "runtime \<Rightarrow> jsstring \<Rightarrow> jsstring" where
  "normalizeUrl rt url0 =
     (let url = stripTrailingPunct url0;
          url' = (if \<not> startsWith url (lit ''http://'') \<and> \<not> startsWith url (lit ''https://'')
                  then lit ''https://'' @ url else url)
      in toLowerCase rt url')"

definition extractUrls :: "runtime \<Rightarrow> jsstring \<Rightarrow> jsstring list" where
  "extractUrls rt text =
     (if text = [] then [] else map (normalizeUrl rt) (matchAll matchUrlAt 0 text))"

text \<open>\<open>s.replace(/^p/, '')\<close> for a literal prefix \<open>p\<close>.\<close>

definition dropPrefix :: "jsstring \<Rightarrow> jsstring \<Rightarrow> jsstring" where
  "dropPrefix p s = (if startsWith s p then drop (length p) s else s)"

text \<open>\<open>s.split(sep)[0]\<close> for a separator of one code unit.\<close>

definition beforeSep :: "nat \<Rightarrow> jsstring \<Rightarrow> jsstring" where
  "beforeSep sep s = takeWhile (\<lambda>c. c \<noteq> sep) s"

text \<open>
  \<open>extractDomain\<close>; nothing in its body throws on a string, so it never returns null.
\<close>

definition extractDomain :: "runtime \<Rightarrow> jsstring \<Rightarrow> jsstring" where
  "extractDomain rt url =
     (let d0 = (if startsWith url (lit ''https://'') then drop 8 url
                else if startsWith url (lit ''http://'') then drop 7 url
                else url);
          d1 = dropPrefix (lit ''www.'') d0;
          d2 = beforeSep 35 (beforeSep 63 (beforeSep 47 d1));
          d3 = beforeSep 58 d2
      in toLowerCase rt d3)"

section \<open>Spam heuristics\<close>

text \<open>
  \<open>hasExcessiveCaps\<close>. The script compares the quotient of two lengths with 0.5; for
  lengths of strings the floating-point comparison holds exactly when twice the count
  reaches the length.
\<close>

definition hasExcessiveCaps :: "jsstring \<Rightarrow> bool" where
  "hasExcessiveCaps text =
     (if text = [] then False
      else
        let cleanText = filter (\<lambda>c. \<not> isWhiteSpace c) (removeAll matchHttpUrl 0 text)
        in if length cleanText = 0 then False
           else
             let capsCount = length (filter isUpperAZ cleanText)
             in 2 * capsCount \<ge> length cleanText)"

text \<open>
  \<open>hasExcessivePunctuation\<close>. The quotient is compared with 0.1; for lengths of strings
  the floating-point comparison holds exactly when ten times the count exceeds the length.
\<close>

definition hasExcessivePunctuation :: "jsstring \<Rightarrow> bool" where
  "hasExcessivePunctuation text =
     (if text = [] then False
      else if existsRun isMark 3 text then True
      else
        let punctCount = length (filter isMark text)
        in 10 * punctCount > length text)"

record patterncheck =
  hasSuspicious :: bool
  patterns :: "jsstring list"

definition hasSuspiciousPatterns :: "runtime \<Rightarrow> jsstring \<Rightarrow> patterncheck" where
  "hasSuspiciousPatterns rt text =
     (if text = [] then \<lparr>hasSuspicious = False, patterns = []\<rparr>
      else
        let lowerText = toLowerCase rt text;
            p1 = map (\<lambda>keyword. lit ''Suspicious keyword: '' @ [34] @ keyword @ [34])
                   (filter (\<lambda>keyword. jsIncludes lowerText keyword) SUSPICIOUS_KEYWORDS);
            p2 = (if existsRun isDigit 10 text then [lit ''Excessive numbers detected''] else []);
            p3 = (if hasRepetition text then [lit ''Suspicious character repetition''] else []);
            ps = p1 @ p2 @ p3
        in \<lparr>hasSuspicious = (length ps > 0), patterns = ps\<rparr>)"

section \<open>Content validation\<close>

text \<open>
  The object \<open>validateMessage\<close> returns. \<open>missingKeywords\<close> and \<open>allowedDomains\<close> are
  properties only some return statements set (\<open>None\<close>: the property is absent).
\<close>

record verdict =
  isValid :: bool
  reason :: jsstring
  foundUrls :: "jsstring list"
  blockedDomains :: "jsstring list"
  validationDetails :: "jsstring list"
  missingKeywords :: "bool option"
  allowedDomains :: "jsstring list option"

definition domainMatches :: "jsstring \<Rightarrow> jsstring \<Rightarrow> bool" where
  "domainMatches domain listed = (domain = listed \<or> endsWith domain (46 # listed))"

text \<open>The two nested loops over the domains and the blacklist.\<close>

definition collectBlocked :: "jsstring list \<Rightarrow> jsstring list" where
  "collectBlocked domains =
     concat (map (\<lambda>domain.
        concat (map (\<lambda>blockedDomain. if domainMatches domain blockedDomain then [domain] else [])
                  BLOCKED_DOMAINS)) domains)"

text \<open>
  The whitelist loop of strict mode: the first domain no entry allows, with the domains
  allowed before it.
\<close>

fun firstNotAllowed :: "jsstring list \<Rightarrow> jsstring list \<Rightarrow> (jsstring \<times> jsstring list) option" where
  "firstNotAllowed allowed [] = None"
| "firstNotAllowed allowed (domain # ds) =
     (if list_ex (domainMatches domain) ALLOWED_DOMAINS
      then firstNotAllowed (allowed @ [domain]) ds
      else Some (domain, allowed))"

definition rejectEmpty :: verdict where
  "rejectEmpty =
     \<lparr>isValid = False, reason = lit ''Empty or invalid message'', foundUrls = [],
      blockedDomains = [], validationDetails = [],
      missingKeywords = None, allowedDomains = None\<rparr>"

text \<open>The branch for a message without URLs: the first heuristic that hits rejects.\<close>

definition validateNoUrls :: "runtime \<Rightarrow> jsstring \<Rightarrow> jsstring list \<Rightarrow> verdict" where
  "validateNoUrls rt message details =
     (if hasExcessiveCaps message then
        \<lparr>isValid = False, reason = lit ''Excessive capitalization detected (potential spam)'',
         foundUrls = [], blockedDomains = [],
         validationDetails = details @ [lit ''Excessive capitalization detected''],
         missingKeywords = None, allowedDomains = None\<rparr>
      else if hasExcessivePunctuation message then
        \<lparr>isValid = False, reason = lit ''Excessive punctuation detected (potential spam)'',
         foundUrls = [], blockedDomains = [],
         validationDetails = details @ [lit ''Excessive punctuation detected''],
         missingKeywords = None, allowedDomains = None\<rparr>
      else
        let patternCheck = hasSuspiciousPatterns rt message
        in if hasSuspicious patternCheck then
             \<lparr>isValid = False,
              reason = lit ''Suspicious patterns detected: '' @
                         joinWith (lit ''; '') (patterns patternCheck),
              foundUrls = [], blockedDomains = [],
              validationDetails = details @ patterns patternCheck,
              missingKeywords = None, allowedDomains = None\<rparr>
           else
             \<lparr>isValid = True, reason = lit ''No URLs found, content validated'',
              foundUrls = [], blockedDomains = [], validationDetails = [],
              missingKeywords = None, allowedDomains = None\<rparr>)"

text \<open>The additional spam checks for a message with URLs, behind the domain checks.\<close>

definition validateSpamWithUrls ::
  "runtime \<Rightarrow> jsstring \<Rightarrow> jsstring list \<Rightarrow> jsstring list \<Rightarrow> jsstring list \<Rightarrow> verdict" where
  "validateSpamWithUrls rt message urls domains details =
     (let details1 = details @
            (if hasExcessiveCaps message then [lit ''Excessive capitalization detected''] else []);
          details2 = details1 @
            (if hasExcessivePunctuation message then [lit ''Excessive punctuation detected''] else []);
          patternCheck = hasSuspiciousPatterns rt message;
          details3 = details2 @ (if hasSuspicious patternCheck then patterns patternCheck else [])
      in if hasSuspicious patternCheck \<and> length (patterns patternCheck) \<ge> 2 then
           \<lparr>isValid = False,
            reason = lit ''Multiple suspicious patterns detected: '' @
                       joinWith (lit ''; '') (patterns patternCheck),
            foundUrls = urls, blockedDomains = [], validationDetails = details3,
            missingKeywords = None, allowedDomains = None\<rparr>
         else
           \<lparr>isValid = True,
            reason = lit ''URLs validated: '' @ joinWith (lit '', '') domains,
            foundUrls = urls, blockedDomains = [], validationDetails = details3,
            missingKeywords = None, allowedDomains = Some domains\<rparr>)"

text \<open>The branch for a message with URLs: blacklist, whitelist in strict mode, spam checks.\<close>

definition validateUrls :: "runtime \<Rightarrow> jsstring \<Rightarrow> jsstring list \<Rightarrow> jsstring list \<Rightarrow> verdict" where
  "validateUrls rt message urls details =
     (let domains = map (extractDomain rt) urls;
          blocked = collectBlocked domains
      in if length blocked > 0 then
           \<lparr>isValid = False,
            reason = lit ''Blocked domain(s) detected: '' @ joinWith (lit '', '') blocked,
            foundUrls = urls, blockedDomains = blocked,
            validationDetails = details @ [lit ''Blocked domains: '' @ joinWith (lit '', '') blocked],
            missingKeywords = None, allowedDomains = None\<rparr>
         else
           (case (if STRICT_MODE \<and> length ALLOWED_DOMAINS > 0
                  then firstNotAllowed [] domains else None) of
              Some (domain, allowed) \<Rightarrow>
                \<lparr>isValid = False, reason = lit ''Domain not in whitelist: '' @ domain,
                 foundUrls = urls, blockedDomains = [],
                 validationDetails = details @ [lit ''Domain not in whitelist: '' @ domain],
                 missingKeywords = None, allowedDomains = Some allowed\<rparr>
            | None \<Rightarrow> validateSpamWithUrls rt message urls domains details))"

text \<open>\<open>validateMessage\<close> on a non-empty string.\<close>

definition validateText :: "runtime \<Rightarrow> jsstring \<Rightarrow> verdict" where
  "validateText rt message =
     (if length message > MAX_MESSAGE_LENGTH then
        \<lparr>isValid = False,
         reason = lit ''Message too long: '' @ showNat (length message) @
                    lit '' characters (limit: '' @ showNat MAX_MESSAGE_LENGTH @ lit '')'',
         foundUrls = [], blockedDomains = [],
         validationDetails = [lit ''Length check failed: '' @ showNat (length message) @
                                lit '' > '' @ showNat MAX_MESSAGE_LENGTH],
         missingKeywords = None, allowedDomains = None\<rparr>
      else
        let keywordCheck = hasRequiredKeywords rt message
        in if REQUIRE_KEYWORD_VALIDATION \<and> \<not> hasRequired keywordCheck then
             \<lparr>isValid = False,
              reason = lit ''Message does not contain any required keywords. Expected keywords include: '' @
                         joinWith (lit '', '') (take 5 REQUIRED_KEYWORDS) @
                         (if length REQUIRED_KEYWORDS > 5 then lit ''...'' else []),
              foundUrls = [], blockedDomains = [],
              validationDetails = [lit ''Missing required keywords''],
              missingKeywords = Some True, allowedDomains = None\<rparr>
           else
             let details0 = (if REQUIRE_KEYWORD_VALIDATION
                             then [lit ''Found required keywords: '' @
                                     joinWith (lit '', '') (foundKeywords keywordCheck)]
                             else []);
                 urls = extractUrls rt message
             in if length urls > MAX_URLS_PER_MESSAGE then
                  \<lparr>isValid = False,
                   reason = lit ''Too many URLs detected: '' @ showNat (length urls) @
                              lit '' (limit: '' @ showNat MAX_URLS_PER_MESSAGE @ lit '')'',
                   foundUrls = urls, blockedDomains = [],
                   validationDetails = details0 @
                     [lit ''Too many URLs: '' @ showNat (length urls) @
                        lit '' (limit: '' @ showNat MAX_URLS_PER_MESSAGE @ lit '')''],
                   missingKeywords = None, allowedDomains = None\<rparr>
                else
                  let details1 = details0 @
                        (if length urls > MAX_SUSPICIOUS_URLS
                         then [lit ''Suspicious number of URLs: '' @ showNat (length urls)]
                         else [])
                  in if length urls = 0 then validateNoUrls rt message details1
                     else validateUrls rt message urls details1)"

text \<open>\<open>validateMessage\<close>: \<open>!message || typeof message !== 'string'\<close> rejects first.\<close>

definition validateMessage :: "runtime \<Rightarrow> jsval \<Rightarrow> verdict" where
  "validateMessage rt message =
     (case message of
        VStr m \<Rightarrow> (if \<not> truthy message then rejectEmpty else validateText rt m)
      | _ \<Rightarrow> rejectEmpty)"

section \<open>Dates\<close>

text \<open>
  Time values are milliseconds since 1970-01-01T00:00Z. The calendar is the proleptic
  Gregorian one of ECMAScript, computed from the day number by the usual era arithmetic;
  months count from 0 as \<open>getMonth\<close> does.
\<close>

definition msPerMinute :: int where "msPerMinute = 60000"
definition msPerHour :: int where "msPerHour = 3600000"
definition msPerDay :: int where "msPerDay = 86400000"

definition civilFromDays :: "int \<Rightarrow> int \<times> int \<times> int" where
  "civilFromDays z0 =
     (let z = z0 + 719468;
          era = z div 146097;
          doe = z - era * 146097;
          yoe = (doe - doe div 1460 + doe div 36524 - doe div 146096) div 365;
          doy = doe - (365 * yoe + yoe div 4 - yoe div 100);
          mp = (5 * doy + 2) div 153;
          d = doy - (153 * mp + 2) div 5 + 1;
          m = (if mp < 10 then mp + 3 else mp - 9);
          y = yoe + era * 400 + (if m \<le> 2 then 1 else 0)
      in (y, m - 1, d))"

definition daysFromCivil :: "int \<Rightarrow> int \<Rightarrow> int \<Rightarrow> int" where
  "daysFromCivil y0 m d =
     (let y = y0 - (if m \<le> 2 then 1 else 0);
          era = y div 400;
          yoe = y - era * 400;
          doy = (153 * (if m > 2 then m - 3 else m + 9) + 2) div 5 + d - 1;
          doe = yoe * 365 + yoe div 4 - yoe div 100 + doy
      in era * 146097 + doe - 719468)"

text \<open>TimeClip: a time value beyond 8.64e15 ms is NaN.\<close>

definition timeClip :: "int \<Rightarrow> jsdate" where
  "timeClip t = (if \<bar>t\<bar> \<le> 8640000000000000 then Some t else None)"

definition localTime :: "runtime \<Rightarrow> int \<Rightarrow> int" where
  "localTime rt t = t + tzMinutes rt * msPerMinute"

definition yearOf :: "runtime \<Rightarrow> int \<Rightarrow> int" where
  "yearOf rt t = fst (civilFromDays (localTime rt t div msPerDay))"

definition monthOf :: "runtime \<Rightarrow> int \<Rightarrow> int" where
  "monthOf rt t = fst (snd (civilFromDays (localTime rt t div msPerDay)))"

definition dateOf :: "runtime \<Rightarrow> int \<Rightarrow> int" where
  "dateOf rt t = snd (snd (civilFromDays (localTime rt t div msPerDay)))"

definition hoursOf :: "runtime \<Rightarrow> int \<Rightarrow> int" where
  "hoursOf rt t = (localTime rt t mod msPerDay) div msPerHour"

definition minutesOf :: "runtime \<Rightarrow> int \<Rightarrow> int" where
  "minutesOf rt t = (localTime rt t mod msPerHour) div msPerMinute"

text \<open>\<open>getDay\<close>: 0 is Sunday; day 0 of the epoch was a Thursday.\<close>

definition weekdayOf :: "runtime \<Rightarrow> int \<Rightarrow> int" where
  "weekdayOf rt t = (localTime rt t div msPerDay + 4) mod 7"

text \<open>The getters of a Date object return NaN (\<open>None\<close>) on an Invalid Date.\<close>

definition getFullYear :: "runtime \<Rightarrow> jsdate \<Rightarrow> int option" where
  "getFullYear rt d = map_option (yearOf rt) d"

definition getMonth :: "runtime \<Rightarrow> jsdate \<Rightarrow> int option" where
  "getMonth rt d = map_option (monthOf rt) d"

definition getDate :: "runtime \<Rightarrow> jsdate \<Rightarrow> int option" where
  "getDate rt d = map_option (dateOf rt) d"

definition getHours :: "runtime \<Rightarrow> jsdate \<Rightarrow> int option" where
  "getHours rt d = map_option (hoursOf rt) d"

definition getMinutes :: "runtime \<Rightarrow> jsdate \<Rightarrow> int option" where
  "getMinutes rt d = map_option (minutesOf rt) d"

definition getDay :: "runtime \<Rightarrow> jsdate \<Rightarrow> int option" where
  "getDay rt d = map_option (weekdayOf rt) d"

text \<open>\<open>a === b\<close> and \<open>a >= b\<close> on numbers: false when either side is NaN.\<close>

definition numEq :: "int option \<Rightarrow> int option \<Rightarrow> bool" where
  "numEq a b = (case (a, b) of (Some x, Some y) \<Rightarrow> x = y | _ \<Rightarrow> False)"

definition numGe :: "int option \<Rightarrow> int option \<Rightarrow> bool" where
  "numGe a b = (case (a, b) of (Some x, Some y) \<Rightarrow> x \<ge> y | _ \<Rightarrow> False)"

text \<open>\<open>d.setSeconds(0, 0)\<close>: seconds and milliseconds of the local time set to zero.\<close>

definition setSeconds00 :: "runtime \<Rightarrow> jsdate \<Rightarrow> jsdate" where
  "setSeconds00 rt d =
     (case d of
        None \<Rightarrow> None
      | Some t \<Rightarrow>
          (let lt = localTime rt t
           in timeClip (lt - lt mod msPerMinute - tzMinutes rt * msPerMinute)))"

text \<open>
  \<open>new Date(year, month, date, hours, minutes)\<close>: local time from its fields. A year
  from 0 to 99 means 1900 + year; a NaN field gives an Invalid Date.
\<close>

definition makeDate ::
  "runtime \<Rightarrow> int option \<Rightarrow> int option \<Rightarrow> int option \<Rightarrow> int option \<Rightarrow> int option \<Rightarrow> jsdate" where
  "makeDate rt year month date hours minutes =
     (case (year, month, date, hours, minutes) of
        (Some y, Some m, Some d, Some h, Some mi) \<Rightarrow>
          (let yr = (if 0 \<le> y \<and> y \<le> 99 then 1900 + y else y);
               ym = yr + m div 12;
               mn = m mod 12;
               day = daysFromCivil ym (mn + 1) 1 + d - 1;
               lt = day * msPerDay + h * msPerHour + mi * msPerMinute
           in timeClip (lt - tzMinutes rt * msPerMinute))
      | _ \<Rightarrow> None)"

text \<open>\<open>new Date(value)\<close> on one argument.\<close>

definition newDate :: "runtime \<Rightarrow> jsval \<Rightarrow> jsdate" where
  "newDate rt v =
     (case v of
        VDate d \<Rightarrow> d
      | VStr s \<Rightarrow> (case dateParse rt s of None \<Rightarrow> None | Some t \<Rightarrow> timeClip t)
      | VNum n \<Rightarrow> timeClip n
      | VBool b \<Rightarrow> Some (if b then 1 else 0)
      | VNull \<Rightarrow> Some 0
      | VUndefined \<Rightarrow> None)"

text \<open>\<open>toISOString\<close> of a valid time value (UTC fields).\<close>

definition padNat :: "nat \<Rightarrow> nat \<Rightarrow> jsstring" where
  "padNat w n = replicate (w - length (showNat n)) 48 @ showNat n"

definition isoYear :: "int \<Rightarrow> jsstring" where
  "isoYear y =
     (if 0 \<le> y \<and> y \<le> 9999 then padNat 4 (nat y)
      else (if y < 0 then [45] else [43]) @ padNat 6 (nat \<bar>y\<bar>))"

definition toISOString :: "int \<Rightarrow> jsstring" where
  "toISOString t =
     (let ymd = civilFromDays (t div msPerDay);
          ms = t mod msPerDay
      in isoYear (fst ymd) @ [45] @ padNat 2 (nat (fst (snd ymd) + 1)) @ [45] @
         padNat 2 (nat (snd (snd ymd))) @ [84] @
         padNat 2 (nat (ms div msPerHour)) @ [58] @
         padNat 2 (nat ((ms mod msPerHour) div msPerMinute)) @ [58] @
         padNat 2 (nat ((ms mod msPerMinute) div 1000)) @ [46] @
         padNat 3 (nat (ms mod 1000)) @ [90])"

section \<open>Spreadsheet rows\<close>

definition COL_DATETIME :: nat where "COL_DATETIME = 0"
definition COL_MESSAGE :: nat where "COL_MESSAGE = 1"
definition COL_REPEAT :: nat where "COL_REPEAT = 2"
definition COL_ENABLED :: nat where "COL_ENABLED = 3"
definition COL_LAST_SENT :: nat where "COL_LAST_SENT = 4"

text \<open>\<open>row[k]\<close>: reading an array beyond its length gives \<open>undefined\<close>.\<close>

definition cell :: "jsval list \<Rightarrow> nat \<Rightarrow> jsval" where
  "cell row k = (if k < length row then row ! k else VUndefined)"

text \<open>The exceptions the scheduler's own code can raise on a cell of the wrong type.\<close>

datatype exn = TypeError

section \<open>Duplicate content detection\<close>

text \<open>\<open>s.replace(/\s+/g, ' ')\<close>; the flag tells whether the previous code unit was whitespace.\<close>

fun collapseWs :: "bool \<Rightarrow> jsstring \<Rightarrow> jsstring" where
  "collapseWs inWs [] = []"
| "collapseWs inWs (c # cs) =
     (if isWhiteSpace c then (if inWs then collapseWs True cs else 32 # collapseWs True cs)
      else c # collapseWs False cs)"

definition normalizeContent :: "runtime \<Rightarrow> jsstring \<Rightarrow> jsstring" where
  "normalizeContent rt s = collapseWs False (toLowerCase rt (trim s))"

text \<open>
  \<open>v.toString().startsWith(p)\<close> for a prefix \<open>p\<close> in capital letters with a colon: only
  a string can start with it (the renderings of numbers, booleans and dates do not).
\<close>

definition textStartsWith :: "jsval \<Rightarrow> jsstring \<Rightarrow> bool" where
  "textStartsWith v p = (case v of VStr s \<Rightarrow> startsWith s p | _ \<Rightarrow> False)"

record dupcheck =
  isDuplicate :: bool
  dupReason :: jsstring

definition noDuplicate :: dupcheck where
  "noDuplicate = \<lparr>isDuplicate = False, dupReason = []\<rparr>"

text \<open>
  The loop of \<open>detectDuplicateContent\<close> from index \<open>i\<close> on, over the rows left.
  \<open>otherMessage.trim()\<close> raises a TypeError when the cell is truthy and not a string.
  An Invalid Date compares false with \<open>>=\<close>, so the loop goes on behind it.
\<close>

fun dupLoop ::
  "runtime \<Rightarrow> int \<Rightarrow> jsstring \<Rightarrow> int \<Rightarrow> nat \<Rightarrow> jsval list list \<Rightarrow> exn + dupcheck" where
  "dupLoop rt twentyFourHoursAgo normalizedMessage currentRowIndex i [] = Inr noDuplicate"
| "dupLoop rt twentyFourHoursAgo normalizedMessage currentRowIndex i (row # rows) =
     (if int i = currentRowIndex + 1
      then dupLoop rt twentyFourHoursAgo normalizedMessage currentRowIndex (i + 1) rows
      else
        let otherMessage = cell row COL_MESSAGE;
            lastSent = cell row COL_LAST_SENT
        in if \<not> truthy otherMessage
           then dupLoop rt twentyFourHoursAgo normalizedMessage currentRowIndex (i + 1) rows
           else (case otherMessage of
                   VStr other \<Rightarrow>
                     (if normalizedMessage = normalizeContent rt other \<and> truthy lastSent
                      then (case newDate rt lastSent of
                              Some lastSentDate \<Rightarrow>
                                if lastSentDate \<ge> twentyFourHoursAgo \<and>
                                   \<not> textStartsWith lastSent (lit ''ERROR:'') \<and>
                                   \<not> textStartsWith lastSent (lit ''BLOCKED:'')
                                then Inr \<lparr>isDuplicate = True,
                                          dupReason =
                                            lit ''Duplicate message detected: Same content was sent at '' @
                                            toISOString lastSentDate\<rparr>
                                else dupLoop rt twentyFourHoursAgo normalizedMessage
                                       currentRowIndex (i + 1) rows
                            | None \<Rightarrow>
                                dupLoop rt twentyFourHoursAgo normalizedMessage
                                  currentRowIndex (i + 1) rows)
                      else dupLoop rt twentyFourHoursAgo normalizedMessage currentRowIndex
                             (i + 1) rows)
                 | _ \<Rightarrow> Inl TypeError))"

text \<open>
  \<open>detectDuplicateContent(message, sheetData, currentRowIndex)\<close>, with the instant its
  \<open>new Date()\<close> reads. \<open>message.trim()\<close> raises a TypeError on a truthy value that is not
  a string. The loop starts at index 1, behind the header row. The data is an array, which
  is truthy also when empty, so \<open>!sheetData\<close> never holds.
\<close>

definition detectDuplicateContent ::
  "runtime \<Rightarrow> int \<Rightarrow> jsval \<Rightarrow> jsval list list \<Rightarrow> int \<Rightarrow> exn + dupcheck" where
  "detectDuplicateContent rt now message sheetData currentRowIndex =
     (if \<not> truthy message \<or> currentRowIndex < 0 then Inr noDuplicate
      else (case message of
              VStr m \<Rightarrow>
                dupLoop rt (now - 24 * 60 * 60 * 1000) (normalizeContent rt m)
                  currentRowIndex 1 (drop 1 sheetData)
            | _ \<Rightarrow> Inl TypeError))"

section \<open>Rate limiting\<close>

text \<open>
  The script cache: a key holds a string until its expiry instant. Reading returns the
  (unchanged) cache with the value, so that every operation is a state transformer.
\<close>

type_synonym cache = "jsstring \<Rightarrow> (jsstring \<times> int) option"

definition cacheGet :: "jsstring \<Rightarrow> int \<Rightarrow> cache \<Rightarrow> jsstring option \<times> cache" where
  "cacheGet key now c =
     ((case c key of
         None \<Rightarrow> None
       | Some (v, expiry) \<Rightarrow> if now < expiry then Some v else None), c)"

definition cachePut :: "jsstring \<Rightarrow> jsstring \<Rightarrow> int \<Rightarrow> int \<Rightarrow> cache \<Rightarrow> cache" where
  "cachePut key v seconds now c = c(key \<mapsto> (v, now + seconds * 1000))"

text \<open>
  \<open>parseInt(s)\<close> without a radix: leading whitespace and a sign are skipped, a prefix
  \<open>0x\<close> selects radix 16, and the longest prefix of digits is read; none gives NaN.
\<close>

definition digitValue :: "nat \<Rightarrow> nat" where
  "digitValue c =
     (if isDigit c then c - 48
      else if isLowerAZ c then c - 97 + 10
      else if isUpperAZ c then c - 65 + 10
      else 36)"

definition parseDigits :: "nat \<Rightarrow> jsstring \<Rightarrow> int option" where
  "parseDigits radix s =
     (let ds = takeWhile (\<lambda>c. digitValue c < radix) s
      in if ds = [] then None
         else Some (foldl (\<lambda>acc c. acc * int radix + int (digitValue c)) 0 ds))"

definition parseInt :: "jsstring \<Rightarrow> int option" where
  "parseInt s0 =
     (let s1 = dropWhile isWhiteSpace s0;
          neg = (take 1 s1 = [45]);
          s2 = (if take 1 s1 = [45] \<or> take 1 s1 = [43] then drop 1 s1 else s1);
          hex = (startsWithCI s2 (lit ''0x''));
          r = (if hex then parseDigits 16 (drop 2 s2) else parseDigits 10 s2)
      in map_option (\<lambda>n. if neg then - n else n) r)"

text \<open>\<open>cache.get(key) || '0'\<close>.\<close>

definition orZero :: "jsstring option \<Rightarrow> jsstring" where
  "orZero x = (case x of None \<Rightarrow> lit ''0'' | Some s \<Rightarrow> if s = [] then lit ''0'' else s)"

definition hourKey :: "runtime \<Rightarrow> int \<Rightarrow> jsstring" where
  "hourKey rt now =
     lit ''rate_hour_'' @ showInt (yearOf rt now) @ [95] @ showInt (monthOf rt now) @ [95] @
     showInt (dateOf rt now) @ [95] @ showInt (hoursOf rt now)"

definition dayKey :: "runtime \<Rightarrow> int \<Rightarrow> jsstring" where
  "dayKey rt now =
     lit ''rate_day_'' @ showInt (yearOf rt now) @ [95] @ showInt (monthOf rt now) @ [95] @
     showInt (dateOf rt now)"

record ratecheck =
  isAllowed :: bool
  rateReason :: jsstring
  hourCount :: "int option"
  dayCount :: "int option"

text \<open>\<open>checkRateLimit\<close>, with the instant its \<open>new Date()\<close> reads.\<close>

definition checkRateLimit :: "runtime \<Rightarrow> int \<Rightarrow> cache \<Rightarrow> ratecheck \<times> cache" where
  "checkRateLimit rt now c0 =
     (let (h, c1) = cacheGet (hourKey rt now) now c0;
          (d, c2) = cacheGet (dayKey rt now) now c1;
          hourCount = parseInt (orZero h);
          dayCount = parseInt (orZero d)
      in if numGe hourCount (Some MAX_MESSAGES_PER_HOUR) then
           (\<lparr>isAllowed = False,
             rateReason = lit ''Rate limit exceeded: '' @ showNum hourCount @
                            lit '' messages sent this hour (limit: '' @
                            showInt MAX_MESSAGES_PER_HOUR @ lit '')'',
             hourCount = hourCount, dayCount = dayCount\<rparr>, c2)
         else if numGe dayCount (Some MAX_MESSAGES_PER_DAY) then
           (\<lparr>isAllowed = False,
             rateReason = lit ''Rate limit exceeded: '' @ showNum dayCount @
                            lit '' messages sent today (limit: '' @
                            showInt MAX_MESSAGES_PER_DAY @ lit '')'',
             hourCount = hourCount, dayCount = dayCount\<rparr>, c2)
         else
           (\<lparr>isAllowed = True,
             rateReason = lit ''Rate limit OK ('' @ showNum hourCount @ [47] @
                            showInt MAX_MESSAGES_PER_HOUR @ lit '' per hour, '' @
                            showNum dayCount @ [47] @ showInt MAX_MESSAGES_PER_DAY @
                            lit '' per day)'',
             hourCount = hourCount, dayCount = dayCount\<rparr>, c2))"

text \<open>\<open>incrementRateLimit\<close>, with the instant its \<open>new Date()\<close> reads.\<close>

definition incrementRateLimit :: "runtime \<Rightarrow> int \<Rightarrow> cache \<Rightarrow> cache" where
  "incrementRateLimit rt now c0 =
     (let (h, c1) = cacheGet (hourKey rt now) now c0;
          (d, c2) = cacheGet (dayKey rt now) now c1;
          newHourCount = map_option (\<lambda>n. n + 1) (parseInt (orZero h));
          newDayCount = map_option (\<lambda>n. n + 1) (parseInt (orZero d));
          c3 = cachePut (hourKey rt now) (showNum newHourCount) (60 * 60) now c2
      in cachePut (dayKey rt now) (showNum newDayCount) (6 * 60 * 60) now c3)"

section \<open>Schedule evaluation\<close>

text \<open>The variable \<open>lastSent\<close> of the scheduler: null, or a Date object (valid or not).\<close>

datatype lastsent = NoLastSent | LastSent jsdate

text \<open>
  Parsing the Last Sent cell. \<open>new Date(v)\<close> does not throw on a cell value, so the
  \<open>catch\<close> branch of the script is never taken.
\<close>

definition parseLastSent :: "runtime \<Rightarrow> jsval \<Rightarrow> lastsent" where
  "parseLastSent rt lastSentValue =
     (if truthy lastSentValue then
        (if textStartsWith lastSentValue (lit ''ERROR:'') then NoLastSent
         else LastSent (newDate rt lastSentValue))
      else NoLastSent)"

definition isEnabled :: "runtime \<Rightarrow> jsval \<Rightarrow> bool" where
  "isEnabled rt enabled =
     (case enabled of
        VBool b \<Rightarrow> b
      | VStr s \<Rightarrow>
          s = [9989] \<or>
          trim (toLowerCase rt s) = lit ''yes'' \<or>
          trim (toLowerCase rt s) = lit ''true'' \<or>
          jsIncludes s [9989]
      | _ \<Rightarrow> False)"

text \<open>
  The guard against a second send within one minute: both instants are rebuilt from their
  local fields up to the minute and compared.
\<close>

definition minuteOf :: "runtime \<Rightarrow> jsdate \<Rightarrow> jsdate" where
  "minuteOf rt d =
     makeDate rt (getFullYear rt d) (getMonth rt d) (getDate rt d) (getHours rt d) (getMinutes rt d)"

definition sentThisMinute :: "runtime \<Rightarrow> int \<Rightarrow> lastsent \<Rightarrow> bool" where
  "sentThisMinute rt now lastSent =
     (case lastSent of
        NoLastSent \<Rightarrow> False
      | LastSent d \<Rightarrow> numEq (minuteOf rt (Some now)) (minuteOf rt d))"

definition exactDateMatch :: "runtime \<Rightarrow> int \<Rightarrow> jsdate \<Rightarrow> bool" where
  "exactDateMatch rt now start =
     (numEq (getFullYear rt start) (Some (yearOf rt now)) \<and>
      numEq (getMonth rt start) (Some (monthOf rt now)) \<and>
      numEq (getDate rt start) (Some (dateOf rt now)))"

definition timeMatch :: "runtime \<Rightarrow> int \<Rightarrow> jsdate \<Rightarrow> bool" where
  "timeMatch rt now start =
     (numEq (Some (hoursOf rt now)) (getHours rt start) \<and>
      numEq (Some (minutesOf rt now)) (getMinutes rt start))"

text \<open>
  \<open>Math.floor((now - start) / (1000 * 60 * 60 * 24))\<close>; NaN when \<open>start\<close> is invalid.
\<close>

definition diffDays :: "int \<Rightarrow> jsdate \<Rightarrow> int option" where
  "diffDays now start = map_option (\<lambda>s. (now - s) div msPerDay) start"

text \<open>\<open>diffDays >= 0 && diffDays % n === 0\<close>.\<close>

definition everyNDays :: "int option \<Rightarrow> int \<Rightarrow> bool" where
  "everyNDays dd n = (case dd of None \<Rightarrow> False | Some k \<Rightarrow> k \<ge> 0 \<and> k mod n = 0)"

definition isOneTime :: "jsstring \<Rightarrow> bool" where
  "isOneTime repeat =
     (repeat = [] \<or> repeat = lit ''don'' @ [39] @ lit ''t'' \<or>
      repeat = lit ''don'' @ [39] @ lit ''t repeat'')"

text \<open>
  The condition \<open>shouldSend\<close> on the normalized instants and the lower-cased, trimmed
  repeat text.
\<close>

definition shouldSend :: "runtime \<Rightarrow> int \<Rightarrow> jsdate \<Rightarrow> jsstring \<Rightarrow> lastsent \<Rightarrow> bool" where
  "shouldSend rt now start repeat lastSent =
     (let tm = timeMatch rt now start;
          day = weekdayOf rt now;
          mDay = dateOf rt now;
          month = monthOf rt now;
          dd = diffDays now start
      in (isOneTime repeat \<and> exactDateMatch rt now start \<and> tm) \<or>
         (repeat = lit ''every minute'' \<and>
            (case lastSent of
               NoLastSent \<Rightarrow> True
             | LastSent d \<Rightarrow> numGe (map_option (\<lambda>t. now - t) d) (Some 60000))) \<or>
         (repeat = lit ''daily'' \<and> tm) \<or>
         (repeat = lit ''weekly'' \<and> tm \<and> numEq (Some day) (getDay rt start)) \<or>
         (repeat = lit ''monthly'' \<and> tm \<and> numEq (Some mDay) (getDate rt start)) \<or>
         (repeat = lit ''yearly'' \<and> tm \<and> numEq (Some mDay) (getDate rt start) \<and>
            numEq (Some month) (getMonth rt start)) \<or>
         (repeat = lit ''every 2 days'' \<and> tm \<and> everyNDays dd 2) \<or>
         (repeat = lit ''every 3 days'' \<and> tm \<and> everyNDays dd 3) \<or>
         (repeat = lit ''every 7 days'' \<and> tm \<and> everyNDays dd 7) \<or>
         (repeat = lit ''every 14 days'' \<and> tm \<and> everyNDays dd 14) \<or>
         (repeat = lit ''monday'' \<and> tm \<and> day = 1) \<or>
         (repeat = lit ''tuesday'' \<and> tm \<and> day = 2) \<or>
         (repeat = lit ''wednesday'' \<and> tm \<and> day = 3) \<or>
         (repeat = lit ''thursday'' \<and> tm \<and> day = 4) \<or>
         (repeat = lit ''friday'' \<and> tm \<and> day = 5) \<or>
         (repeat = lit ''saturday'' \<and> tm \<and> day = 6) \<or>
         (repeat = lit ''sunday'' \<and> tm \<and> day = 0))"

text \<open>
  The Schedule Evaluator of one row: the row is not held back by the guard against a
  second send within the minute, and its repeat rule holds.
\<close>

definition isDue :: "runtime \<Rightarrow> int \<Rightarrow> jsdate \<Rightarrow> jsstring \<Rightarrow> lastsent \<Rightarrow> bool" where
  "isDue rt now start repeat lastSent =
     (\<not> sentThisMinute rt now lastSent \<and> shouldSend rt now start repeat lastSent)"

section \<open>The main scheduler\<close>

text \<open>
  What one run of \<open>sendScheduledMessages\<close> leaves behind: the script cache, the values
  written to the Last Sent column (with the spreadsheet row number), the messages posted to
  the chat, the calls of \<open>notifyAdmin\<close> (row number, message, block reason) and the number
  of helper polls.
\<close>

record world =
  cache :: cache
  lastSentWrites :: "(nat \<times> jsval) list"
  sentMessages :: "jsval list"
  adminAlerts :: "(nat \<times> jsval \<times> jsstring) list"
  helperPolls :: nat

text \<open>
  The answer of the Telegram API to the post of one row: \<open>ok\<close>, or a failure (a response
  that is not ok, or an exception of the fetch) with its sanitized error text.
\<close>

datatype tgresult = TgOk | TgFail jsstring

text \<open>
  What the run reads from outside, by data row: the answer of the Telegram API and the
  instants that \<open>new Date()\<close> gives inside \<open>detectDuplicateContent\<close>, \<open>checkRateLimit\<close>
  and \<open>incrementRateLimit\<close>.
\<close>

record env =
  telegram :: "nat \<Rightarrow> tgresult"
  dupClock :: "nat \<Rightarrow> int"
  rateClock :: "nat \<Rightarrow> int"
  incClock :: "nat \<Rightarrow> int"

definition setLastSent :: "nat \<Rightarrow> jsval \<Rightarrow> world \<Rightarrow> world" where
  "setLastSent rowNumber v w = w\<lparr>lastSentWrites := lastSentWrites w @ [(rowNumber, v)]\<rparr>"

definition notifyAdmin :: "nat \<Rightarrow> jsval \<Rightarrow> jsstring \<Rightarrow> world \<Rightarrow> world" where
  "notifyAdmin rowNumber message blockReason w =
     w\<lparr>adminAlerts := adminAlerts w @ [(rowNumber, message, blockReason)]\<rparr>"

text \<open>The post to the chat and what follows from its answer.\<close>

definition postMessage :: "runtime \<Rightarrow> env \<Rightarrow> int \<Rightarrow> nat \<Rightarrow> jsval \<Rightarrow> verdict \<Rightarrow> world \<Rightarrow> world" where
  "postMessage rt e now i msg validationResult w0 =
     (let w1 = w0\<lparr>sentMessages := sentMessages w0 @ [msg]\<rparr>
      in case telegram e i of
           TgOk \<Rightarrow>
             (let w2 = setLastSent (i + 1) (VDate (Some now)) w1;
                  w3 = w2\<lparr>cache := incrementRateLimit rt (incClock e i) (cache w2)\<rparr>
              in if length (foundUrls validationResult) > 0
                 then w3\<lparr>helperPolls := helperPolls w3 + 1\<rparr> else w3)
         | TgFail sanitizedError \<Rightarrow>
             notifyAdmin (i + 1) msg (lit ''ERROR: '' @ sanitizedError)
               (setLastSent (i + 1) (VStr (lit ''ERROR: '' @ sanitizedError)) w1))"

text \<open>
  The body of \<open>if (shouldSend)\<close> for data row \<open>i\<close>: duplicate check, validation, rate
  limit, post.
\<close>

definition sendIfAllowed ::
  "runtime \<Rightarrow> env \<Rightarrow> int \<Rightarrow> jsval list list \<Rightarrow> nat \<Rightarrow> jsval \<Rightarrow> world \<Rightarrow> exn + world" where
  "sendIfAllowed rt e now data i msg w =
     (case detectDuplicateContent rt (dupClock e i) msg data (int i) of
        Inl x \<Rightarrow> Inl x
      | Inr duplicateCheck \<Rightarrow>
          if isDuplicate duplicateCheck then
            (let blockReason = lit ''BLOCKED: '' @ dupReason duplicateCheck
             in Inr (notifyAdmin (i + 1) msg blockReason
                       (setLastSent (i + 1) (VStr blockReason) w)))
          else
            let validationResult = validateMessage rt msg
            in if \<not> isValid validationResult then
                 (let blockReason = lit ''BLOCKED: '' @ reason validationResult
                  in Inr (notifyAdmin (i + 1) msg blockReason
                            (setLastSent (i + 1) (VStr blockReason) w)))
               else
                 let (rateLimitCheck, c) = checkRateLimit rt (rateClock e i) (cache w);
                     w1 = w\<lparr>cache := c\<rparr>
                 in if \<not> isAllowed rateLimitCheck then
                      (let blockMsg = lit ''RATE_LIMITED: '' @ rateReason rateLimitCheck
                       in Inr (notifyAdmin (i + 1) msg blockMsg
                                 (setLastSent (i + 1) (VStr blockMsg) w1)))
                    else Inr (postMessage rt e now i msg validationResult w1))"

text \<open>
  One iteration of the loop over the rows, for the normalized instant \<open>now\<close> and the
  row at index \<open>i\<close> of the data. \<open>repeatRaw.toLowerCase()\<close> raises a TypeError when the
  Repeat cell is truthy and not a string, as reading a cell of a row that does not exist
  would.
\<close>

definition processRow ::
  "runtime \<Rightarrow> env \<Rightarrow> int \<Rightarrow> jsval list list \<Rightarrow> nat \<Rightarrow> world \<Rightarrow> exn + world" where
  "processRow rt e now data i w =
     (if i \<ge> length data then Inl TypeError
      else
      let row = data ! i
      in if \<not> truthy (cell row COL_DATETIME) then Inr w
         else
           let start = setSeconds00 rt (newDate rt (cell row COL_DATETIME));
               msg = cell row COL_MESSAGE;
               repeatRaw = (if truthy (cell row COL_REPEAT) then cell row COL_REPEAT else VStr []);
               enabled = cell row COL_ENABLED;
               lastSent = parseLastSent rt (cell row COL_LAST_SENT)
           in if \<not> truthy msg \<or> \<not> isEnabled rt enabled then Inr w
              else if sentThisMinute rt now lastSent then Inr w
              else (case repeatRaw of
                      VStr r \<Rightarrow>
                        if shouldSend rt now start (trim (toLowerCase rt r)) lastSent
                        then sendIfAllowed rt e now data i msg w
                        else Inr w
                    | _ \<Rightarrow> Inl TypeError))"

text \<open>
  The loop; an exception leaves it (the outer \<open>catch\<close> logs and swallows it). Both places
  that raise do so before the iteration has written anything.
\<close>

fun runRows ::
  "runtime \<Rightarrow> env \<Rightarrow> int \<Rightarrow> jsval list list \<Rightarrow> nat list \<Rightarrow> world \<Rightarrow> world" where
  "runRows rt e now data [] w = w"
| "runRows rt e now data (i # is) w =
     (case processRow rt e now data i w of
        Inl x \<Rightarrow> w
      | Inr w' \<Rightarrow> runRows rt e now data is w')"

text \<open>
  \<open>sendScheduledMessages\<close>, with the instant \<open>new Date()\<close> gives at its start (a valid
  time value) and the rows \<open>getValues()\<close> returned, the header row first.
\<close>

definition sendScheduledMessages ::
  "runtime \<Rightarrow> env \<Rightarrow> int \<Rightarrow> jsval list list \<Rightarrow> world \<Rightarrow> world" where
  "sendScheduledMessages rt e now0 data w =
     (case setSeconds00 rt (Some now0) of
        None \<Rightarrow> w
      | Some now \<Rightarrow> runRows rt e now data [1 ..< length data] w)"

text \<open>
  A host for concrete evaluations: it lower-cases the letters A to Z (as every host does
  on ASCII text), its \<open>Date.parse\<close> accepts no string, and its time zone is UTC.
\<close>

definition asciiHost :: runtime where
  "asciiHost = \<lparr>toLowerCase = map foldAZ, dateParse = (\<lambda>s. None), tzMinutes = 0\<rparr>"

text \<open>The finding the keyword check records when it passes.\<close>

definition foundNote :: "runtime \<Rightarrow> jsstring \<Rightarrow> jsstring" where
  "foundNote rt m =
     lit ''Found required keywords: '' @
     joinWith (lit '', '') (foundKeywords (hasRequiredKeywords rt m))"

text \<open>A run that starts with nothing cached, written or sent.\<close>

definition emptyWorld :: world where
  "emptyWorld =
     \<lparr>cache = (\<lambda>k. None), lastSentWrites = [], sentMessages = [], adminAlerts = [],
      helperPolls = 0\<rparr>"

text \<open>Surroundings in which every post succeeds and every clock reading gives \<open>t\<close>.\<close>

definition steadyEnv :: "int \<Rightarrow> env" where
  "steadyEnv t =
     \<lparr>telegram = (\<lambda>i. TgOk), dupClock = (\<lambda>i. t), rateClock = (\<lambda>i. t), incClock = (\<lambda>i. t)\<rparr>"

text \<open>
  The cache after three successful sends at 2024-02-29T13:04Z, from an empty cache.
\<close>

definition threeSends :: cache where
  "threeSends =
     incrementRateLimit asciiHost 1709211840000
       (incrementRateLimit asciiHost 1709211840000
          (incrementRateLimit asciiHost 1709211840000 (\<lambda>k. None)))"

section \<open>Facts for evaluation\<close>

lemmas char_defs = isLineTerminator_def isWhiteSpace_def isDigit_def isUpperAZ_def isLowerAZ_def
  isLetter_def isHostChar_def isMark_def isTrailingPunct_def foldAZ_def lit_def

lemmas string_defs = startsWith_def startsWithCI_def endsWith_def trim_def

lemmas config_defs = BLOCKED_DOMAINS_def ALLOWED_DOMAINS_def STRICT_MODE_def
  MAX_MESSAGE_LENGTH_def MAX_URLS_PER_MESSAGE_def MAX_SUSPICIOUS_URLS_def
  REQUIRE_KEYWORD_VALIDATION_def

lemmas url_defs = nonWsRun_def matchScheme_def matchHttpUrl_def matchWwwUrl_def
  matchBareDomain_def matchUrlAt_def stripTrailingPunct_def normalizeUrl_def extractUrls_def
  dropPrefix_def beforeSep_def extractDomain_def

lemmas column_defs = COL_DATETIME_def COL_MESSAGE_def COL_REPEAT_def COL_ENABLED_def
  COL_LAST_SENT_def

lemma length_lit [simp]: "length (lit s) = length s"
  by (simp add: lit_def)

lemma lit_eq_Nil [simp]: "(lit s = []) = (s = [])"
  by (simp add: lit_def)

section \<open>The branches of the validator\<close>

lemma validateMessage_text:
  "m \<noteq> [] \<Longrightarrow> validateMessage rt (VStr m) = validateText rt m"
  by (simp add: validateMessage_def)

lemma hasRequired_nonempty:
  "hasRequired (hasRequiredKeywords rt m) \<Longrightarrow> m \<noteq> []"
  by (auto simp: hasRequiredKeywords_def)


lemma validateText_noUrls:
  assumes "length m \<le> MAX_MESSAGE_LENGTH" and "hasRequired (hasRequiredKeywords rt m)"
    and "extractUrls rt m = []"
  shows "validateText rt m = validateNoUrls rt m [foundNote rt m]"
  using assms
  by (simp add: validateText_def REQUIRE_KEYWORD_VALIDATION_def Let_def foundNote_def)

lemma validateText_withUrls:
  assumes "length m \<le> MAX_MESSAGE_LENGTH" and "hasRequired (hasRequiredKeywords rt m)"
    and "extractUrls rt m \<noteq> []" and "length (extractUrls rt m) \<le> MAX_URLS_PER_MESSAGE"
  shows "validateText rt m =
           validateUrls rt m (extractUrls rt m)
             ([foundNote rt m] @
              (if length (extractUrls rt m) > MAX_SUSPICIOUS_URLS
               then [lit ''Suspicious number of URLs: '' @ showNat (length (extractUrls rt m))]
               else []))"
  using assms
  by (simp add: validateText_def REQUIRE_KEYWORD_VALIDATION_def Let_def foundNote_def)

subsection \<open>Blocked domains\<close>






lemma collectBlocked_empty:
  assumes "\<forall>d\<in>set ds. \<forall>b\<in>set BLOCKED_DOMAINS. \<not> domainMatches d b"
  shows "collectBlocked ds = []"
  using assms by (auto simp: collectBlocked_def)


lemma validateUrls_unblocked:
  assumes "collectBlocked (map (extractDomain rt) urls) = []"
  shows "validateUrls rt m urls details =
           validateSpamWithUrls rt m urls (map (extractDomain rt) urls) details"
  using assms by (simp add: validateUrls_def Let_def STRICT_MODE_def)

section \<open>Empty and non-text messages\<close>

text \<open>
  C10. On every input that is not a non-empty string (the empty string, null, undefined, a
  number, a boolean, a date) \<open>validateMessage\<close> returns the invalid verdict with the reason
  \<open>Empty or invalid message\<close> and empty lists of URLs, blocked domains and details. The
  scheduler itself passes over a row whose message cell is falsy before any validation.
\<close>

theorem validateMessage_rejects_non_text:
  assumes "\<not> (\<exists>s. s \<noteq> [] \<and> message = VStr s)"
  shows "validateMessage rt message =
           \<lparr>isValid = False, reason = lit ''Empty or invalid message'', foundUrls = [],
            blockedDomains = [], validationDetails = [],
            missingKeywords = None, allowedDomains = None\<rparr> \<and>
         (i < length data \<and> cell (data ! i) COL_MESSAGE = message \<and> \<not> truthy message \<longrightarrow>
            processRow rt e now data i w = Inr w)"
proof
  show "validateMessage rt message =
           \<lparr>isValid = False, reason = lit ''Empty or invalid message'', foundUrls = [],
            blockedDomains = [], validationDetails = [],
            missingKeywords = None, allowedDomains = None\<rparr>"
    using assms by (cases message) (auto simp: validateMessage_def rejectEmpty_def)
next
  show "i < length data \<and> cell (data ! i) COL_MESSAGE = message \<and> \<not> truthy message \<longrightarrow>
          processRow rt e now data i w = Inr w"
    by (simp add: processRow_def Let_def)
qed

theorem validateMessage_rejects_non_text_witness:
  "validateMessage asciiHost (VStr []) =
     \<lparr>isValid = False, reason = lit ''Empty or invalid message'', foundUrls = [],
      blockedDomains = [], validationDetails = [],
      missingKeywords = None, allowedDomains = None\<rparr> \<and>
   processRow asciiHost (steadyEnv 0) 0 [[], [VDate (Some 0), VStr []]] 1 emptyWorld =
     Inr emptyWorld"
  using validateMessage_rejects_non_text
    [of "VStr []" asciiHost 1 "[[], [VDate (Some 0), VStr []]]" "steadyEnv 0" 0 emptyWorld]
  by (simp add: cell_def COL_MESSAGE_def)

section \<open>Blocked domains\<close>

subsection \<open>The scan for URLs\<close>















subsection \<open>A URL with the host bit.ly\<close>





























subsection \<open>A scheme written with capital letters\<close>

text \<open>
  \<open>urlPattern\<close> matches \<open>HTTP://BIT.LY/x\<close> under its \<open>i\<close> flag, but \<open>extractUrls\<close>
  compares with \<open>startsWith('http://')\<close>, which is case-sensitive, before it lower-cases
  the URL. It puts \<open>https://\<close> in front, \<open>extractDomain\<close> removes that prefix only and
  cuts at the colon, and the domain checked against the blacklist is \<open>http\<close>.
\<close>

lemma upper_scheme_keywords:
  "hasRequired (hasRequiredKeywords asciiHost (lit ''test HTTP://BIT.LY/x'')) = True"
  by (simp add: hasRequiredKeywords_def REQUIRED_KEYWORDS_def asciiHost_def char_defs string_defs)

lemma upper_scheme_urls:
  "extractUrls asciiHost (lit ''test HTTP://BIT.LY/x'') = [lit ''https://http://bit.ly/x'']"
  by (simp add: asciiHost_def char_defs string_defs url_defs)

lemma upper_scheme_domain:
  "extractDomain asciiHost (lit ''https://http://bit.ly/x'') = lit ''http''"
  by (simp add: asciiHost_def char_defs string_defs url_defs)

lemma upper_scheme_not_blocked: "collectBlocked [lit ''http''] = []"
  by (simp add: collectBlocked_def domainMatches_def BLOCKED_DOMAINS_def char_defs string_defs)

lemma upper_scheme_patterns:
  "hasSuspiciousPatterns asciiHost (lit ''test HTTP://BIT.LY/x'') =
     \<lparr>hasSuspicious = False, patterns = []\<rparr>"
  by (simp add: hasSuspiciousPatterns_def SUSPICIOUS_KEYWORDS_def asciiHost_def
      char_defs string_defs)

lemma upper_case_scheme_passes:
  "isValid (validateMessage asciiHost (VStr (lit ''test HTTP://BIT.LY/x''))) \<and>
   foundUrls (validateMessage asciiHost (VStr (lit ''test HTTP://BIT.LY/x''))) =
     [lit ''https://http://bit.ly/x''] \<and>
   blockedDomains (validateMessage asciiHost (VStr (lit ''test HTTP://BIT.LY/x''))) = [] \<and>
   allowedDomains (validateMessage asciiHost (VStr (lit ''test HTTP://BIT.LY/x''))) =
     Some [lit ''http'']"
proof -
  let ?m = "lit ''test HTTP://BIT.LY/x''"
  have "?m \<noteq> []" by simp
  then have "validateMessage asciiHost (VStr ?m) = validateText asciiHost ?m"
    by (rule validateMessage_text)
  also have "\<dots> = validateUrls asciiHost ?m [lit ''https://http://bit.ly/x''] [foundNote asciiHost ?m]"
    using validateText_withUrls [of ?m asciiHost] upper_scheme_keywords upper_scheme_urls
    by (simp add: MAX_MESSAGE_LENGTH_def MAX_URLS_PER_MESSAGE_def MAX_SUSPICIOUS_URLS_def)
  also have "\<dots> = validateSpamWithUrls asciiHost ?m [lit ''https://http://bit.ly/x'']
                     [lit ''http''] [foundNote asciiHost ?m]"
    using validateUrls_unblocked
      [of asciiHost "[lit ''https://http://bit.ly/x'']" ?m "[foundNote asciiHost ?m]"]
      upper_scheme_domain upper_scheme_not_blocked
    by simp
  finally show ?thesis
    using upper_scheme_patterns by (simp add: validateSpamWithUrls_def Let_def)
qed

section \<open>Spam heuristics on messages with URLs\<close>

lemma hasSuspicious_iff:
  "hasSuspicious (hasSuspiciousPatterns rt m) = (patterns (hasSuspiciousPatterns rt m) \<noteq> [])"
  by (simp add: hasSuspiciousPatterns_def Let_def)

lemma validateSpamWithUrls_valid:
  "isValid (validateSpamWithUrls rt m urls domains details) =
     (length (patterns (hasSuspiciousPatterns rt m)) < 2)"
  by (auto simp: validateSpamWithUrls_def Let_def hasSuspicious_iff)

lemma validateSpamWithUrls_details:
  "validationDetails (validateSpamWithUrls rt m urls domains details) =
     details @
     (if hasExcessiveCaps m then [lit ''Excessive capitalization detected''] else []) @
     (if hasExcessivePunctuation m then [lit ''Excessive punctuation detected''] else []) @
     patterns (hasSuspiciousPatterns rt m)"
  by (simp add: validateSpamWithUrls_def Let_def hasSuspicious_iff)

lemma validateSpamWithUrls_reason:
  "\<not> isValid (validateSpamWithUrls rt m urls domains details) \<Longrightarrow>
   reason (validateSpamWithUrls rt m urls domains details) =
     lit ''Multiple suspicious patterns detected: '' @
     joinWith (lit ''; '') (patterns (hasSuspiciousPatterns rt m))"
  by (simp add: validateSpamWithUrls_def Let_def hasSuspicious_iff split: if_splits)

lemma validateMessage_clean_urls:
  assumes "length m \<le> MAX_MESSAGE_LENGTH"
    and "hasRequired (hasRequiredKeywords rt m)"
    and "extractUrls rt m \<noteq> []"
    and "length (extractUrls rt m) \<le> MAX_URLS_PER_MESSAGE"
    and "\<forall>u\<in>set (extractUrls rt m). \<forall>b\<in>set BLOCKED_DOMAINS.
           \<not> domainMatches (extractDomain rt u) b"
  shows "validateMessage rt (VStr m) =
           validateSpamWithUrls rt m (extractUrls rt m)
             (map (extractDomain rt) (extractUrls rt m))
             ([foundNote rt m] @
              (if length (extractUrls rt m) > MAX_SUSPICIOUS_URLS
               then [lit ''Suspicious number of URLs: '' @ showNat (length (extractUrls rt m))]
               else []))"
proof -
  have "collectBlocked (map (extractDomain rt) (extractUrls rt m)) = []"
    using assms(5) by (intro collectBlocked_empty) auto
  then show ?thesis
    using validateText_withUrls [OF assms(1-4)] validateMessage_text
      [OF hasRequired_nonempty [OF assms(2)]]
    by (simp add: validateUrls_unblocked)
qed

lemma example_domain:
  "extractDomain asciiHost (lit ''http://example.com'') = lit ''example.com''"
  by (simp add: asciiHost_def char_defs string_defs url_defs)

lemma example_not_blocked:
  "\<forall>b\<in>set BLOCKED_DOMAINS. \<not> domainMatches (lit ''example.com'') b"
  by (simp add: domainMatches_def BLOCKED_DOMAINS_def char_defs string_defs)

lemma shout_keywords:
  "hasRequired (hasRequiredKeywords asciiHost (lit ''TEST NOW!!! http://example.com'')) = True"
  by (simp add: hasRequiredKeywords_def REQUIRED_KEYWORDS_def asciiHost_def char_defs string_defs)

lemma shout_urls:
  "extractUrls asciiHost (lit ''TEST NOW!!! http://example.com'') = [lit ''http://example.com'']"
  by (simp add: asciiHost_def char_defs string_defs url_defs)

lemma shout_caps: "hasExcessiveCaps (lit ''TEST NOW!!! http://example.com'') = True"
  by (simp add: hasExcessiveCaps_def char_defs string_defs url_defs)

lemma shout_punct: "hasExcessivePunctuation (lit ''TEST NOW!!! http://example.com'') = True"
  by (simp add: hasExcessivePunctuation_def char_defs)

lemma shout_patterns:
  "patterns (hasSuspiciousPatterns asciiHost (lit ''TEST NOW!!! http://example.com'')) = []"
  by (simp add: hasSuspiciousPatterns_def SUSPICIOUS_KEYWORDS_def asciiHost_def
      char_defs string_defs)

lemma two_hits_keywords:
  "hasRequired (hasRequiredKeywords asciiHost (lit ''test urgent act now http://example.com'')) = True"
  by (simp add: hasRequiredKeywords_def REQUIRED_KEYWORDS_def asciiHost_def char_defs string_defs)

lemma two_hits_urls:
  "extractUrls asciiHost (lit ''test urgent act now http://example.com'') =
     [lit ''http://example.com'']"
  by (simp add: asciiHost_def char_defs string_defs url_defs)

lemma two_hits_patterns:
  "patterns (hasSuspiciousPatterns asciiHost (lit ''test urgent act now http://example.com'')) =
     [lit ''Suspicious keyword: '' @ [34] @ lit ''act now'' @ [34],
      lit ''Suspicious keyword: '' @ [34] @ lit ''urgent'' @ [34]]"
  by (simp add: hasSuspiciousPatterns_def SUSPICIOUS_KEYWORDS_def asciiHost_def
      char_defs string_defs)

lemma one_hit_keywords:
  "hasRequired (hasRequiredKeywords asciiHost (lit ''test urgent http://example.com'')) = True"
  by (simp add: hasRequiredKeywords_def REQUIRED_KEYWORDS_def asciiHost_def char_defs string_defs)

lemma one_hit_urls:
  "extractUrls asciiHost (lit ''test urgent http://example.com'') = [lit ''http://example.com'']"
  by (simp add: asciiHost_def char_defs string_defs url_defs)

lemma one_hit_patterns:
  "patterns (hasSuspiciousPatterns asciiHost (lit ''test urgent http://example.com'')) =
     [lit ''Suspicious keyword: '' @ [34] @ lit ''urgent'' @ [34]]"
  by (simp add: hasSuspiciousPatterns_def SUSPICIOUS_KEYWORDS_def asciiHost_def
      char_defs string_defs)

text \<open>
  C4, as the code has it. The length limit, the required-keyword gate, the limit on the
  number of URLs and the blacklist come before the spam checks of a message with URLs;
  the whitelist of strict mode is switched off. Consider a message of at most 4096 code
  units that contains a required keyword, in which the validator finds at least one and
  at most 10 URLs, none with a domain that equals an entry of the blacklist or ends in a
  dot and an entry. Every hit of a heuristic is recorded in the details, after the
  findings of the earlier checks. The verdict is invalid exactly when
  \<open>hasSuspiciousPatterns\<close> reports two or more patterns (suspicious keywords count one by
  one, then the run of digits and the repetition), and its reason joins them. Excessive
  capitalization and excessive punctuation are recorded and never reject on this path; a
  single pattern is recorded and does not reject.
\<close>

theorem spam_hits_with_urls:
  assumes "length m \<le> MAX_MESSAGE_LENGTH"
    and "hasRequired (hasRequiredKeywords rt m)"
    and "extractUrls rt m \<noteq> []"
    and "length (extractUrls rt m) \<le> MAX_URLS_PER_MESSAGE"
    and "\<forall>u\<in>set (extractUrls rt m). \<forall>b\<in>set BLOCKED_DOMAINS.
           \<not> domainMatches (extractDomain rt u) b"
  shows "(isValid (validateMessage rt (VStr m)) =
            (length (patterns (hasSuspiciousPatterns rt m)) < 2)) \<and>
         validationDetails (validateMessage rt (VStr m)) =
           [foundNote rt m] @
           (if length (extractUrls rt m) > MAX_SUSPICIOUS_URLS
            then [lit ''Suspicious number of URLs: '' @ showNat (length (extractUrls rt m))]
            else []) @
           (if hasExcessiveCaps m then [lit ''Excessive capitalization detected''] else []) @
           (if hasExcessivePunctuation m then [lit ''Excessive punctuation detected''] else []) @
           patterns (hasSuspiciousPatterns rt m) \<and>
         (\<not> isValid (validateMessage rt (VStr m)) \<longrightarrow>
            reason (validateMessage rt (VStr m)) =
              lit ''Multiple suspicious patterns detected: '' @
              joinWith (lit ''; '') (patterns (hasSuspiciousPatterns rt m)))"
  unfolding validateMessage_clean_urls [OF assms]
  using validateSpamWithUrls_reason
  by (simp add: validateSpamWithUrls_valid validateSpamWithUrls_details)

theorem spam_hits_with_urls_witness:
  "\<not> isValid (validateMessage asciiHost (VStr (lit ''test urgent act now http://example.com''))) \<and>
   reason (validateMessage asciiHost (VStr (lit ''test urgent act now http://example.com''))) =
     lit ''Multiple suspicious patterns detected: '' @
     joinWith (lit ''; '')
       [lit ''Suspicious keyword: '' @ [34] @ lit ''act now'' @ [34],
        lit ''Suspicious keyword: '' @ [34] @ lit ''urgent'' @ [34]] \<and>
   isValid (validateMessage asciiHost (VStr (lit ''test urgent http://example.com''))) \<and>
   lit ''Suspicious keyword: '' @ [34] @ lit ''urgent'' @ [34] \<in>
     set (validationDetails
           (validateMessage asciiHost (VStr (lit ''test urgent http://example.com''))))"
  using spam_hits_with_urls [of "lit ''test urgent act now http://example.com''" asciiHost]
    spam_hits_with_urls [of "lit ''test urgent http://example.com''" asciiHost]
    two_hits_keywords two_hits_urls two_hits_patterns
    one_hit_keywords one_hit_urls one_hit_patterns example_domain example_not_blocked
  by (simp add: MAX_MESSAGE_LENGTH_def MAX_URLS_PER_MESSAGE_def)

theorem caps_and_punctuation_pass_counterexample:
  "extractUrls asciiHost (lit ''TEST NOW!!! http://example.com'') = [lit ''http://example.com''] \<and>
   hasExcessiveCaps (lit ''TEST NOW!!! http://example.com'') \<and>
   hasExcessivePunctuation (lit ''TEST NOW!!! http://example.com'') \<and>
   isValid (validateMessage asciiHost (VStr (lit ''TEST NOW!!! http://example.com''))) \<and>
   validationDetails (validateMessage asciiHost (VStr (lit ''TEST NOW!!! http://example.com''))) =
     [foundNote asciiHost (lit ''TEST NOW!!! http://example.com''),
      lit ''Excessive capitalization detected'', lit ''Excessive punctuation detected'']"
proof -
  have "validateMessage asciiHost (VStr (lit ''TEST NOW!!! http://example.com'')) =
          validateSpamWithUrls asciiHost (lit ''TEST NOW!!! http://example.com'')
            [lit ''http://example.com''] [lit ''example.com'']
            [foundNote asciiHost (lit ''TEST NOW!!! http://example.com'')]"
    using validateMessage_clean_urls [of "lit ''TEST NOW!!! http://example.com''" asciiHost]
      shout_keywords shout_urls example_domain example_not_blocked
    by (simp add: MAX_MESSAGE_LENGTH_def MAX_URLS_PER_MESSAGE_def MAX_SUSPICIOUS_URLS_def)
  then show ?thesis
    using shout_urls shout_caps shout_punct shout_patterns
    by (simp add: validateSpamWithUrls_valid validateSpamWithUrls_details)
qed

section \<open>Details of a passing verdict\<close>

lemma validateMessage_noUrls_pass:
  assumes "length m \<le> MAX_MESSAGE_LENGTH"
    and "hasRequired (hasRequiredKeywords rt m)"
    and "extractUrls rt m = []"
    and "\<not> hasExcessiveCaps m"
    and "\<not> hasExcessivePunctuation m"
    and "patterns (hasSuspiciousPatterns rt m) = []"
  shows "validateMessage rt (VStr m) =
           \<lparr>isValid = True, reason = lit ''No URLs found, content validated'',
            foundUrls = [], blockedDomains = [], validationDetails = [],
            missingKeywords = None, allowedDomains = None\<rparr>"
  using assms validateText_noUrls [OF assms(1-3)]
    validateMessage_text [OF hasRequired_nonempty [OF assms(2)]]
  by (simp add: validateNoUrls_def hasSuspicious_iff)

lemma zeitslot_keywords:
  "hasRequiredKeywords asciiHost (lit ''test zeitslot'') =
     \<lparr>hasRequired = True, foundKeywords = [lit ''test'', lit ''zeitslot'']\<rparr>"
  by (simp add: hasRequiredKeywords_def REQUIRED_KEYWORDS_def asciiHost_def char_defs string_defs)

lemma zeitslot_urls: "extractUrls asciiHost (lit ''test zeitslot'') = []"
  by (simp add: asciiHost_def char_defs string_defs url_defs)

lemma zeitslot_caps: "hasExcessiveCaps (lit ''test zeitslot'') = False"
  by (simp add: hasExcessiveCaps_def char_defs string_defs url_defs)

lemma zeitslot_punct: "hasExcessivePunctuation (lit ''test zeitslot'') = False"
  by (simp add: hasExcessivePunctuation_def char_defs)

lemma zeitslot_patterns:
  "patterns (hasSuspiciousPatterns asciiHost (lit ''test zeitslot'')) = []"
  by (simp add: hasSuspiciousPatterns_def SUSPICIOUS_KEYWORDS_def asciiHost_def
      char_defs string_defs)

lemma zeitslot_verdict:
  "validateMessage asciiHost (VStr (lit ''test zeitslot'')) =
     \<lparr>isValid = True, reason = lit ''No URLs found, content validated'',
      foundUrls = [], blockedDomains = [], validationDetails = [],
      missingKeywords = None, allowedDomains = None\<rparr>"
  using zeitslot_keywords zeitslot_urls zeitslot_caps zeitslot_punct zeitslot_patterns
  by (intro validateMessage_noUrls_pass) (simp_all add: MAX_MESSAGE_LENGTH_def)

text \<open>
  C9. The details of a verdict are to hold the finding of every check, whether the verdict
  passes or fails. Every return statement behind the keyword check hands back the
  accumulated list, except the passing one of the branch without URLs, which hands back a
  new empty list. On the message \<open>test zeitslot\<close> the keyword check finds \<open>test\<close> and
  \<open>zeitslot\<close>, the verdict passes, and its details are empty.
\<close>

theorem passing_verdict_without_urls_drops_findings:
  "foundKeywords (hasRequiredKeywords asciiHost (lit ''test zeitslot'')) =
     [lit ''test'', lit ''zeitslot''] \<and>
   isValid (validateMessage asciiHost (VStr (lit ''test zeitslot''))) \<and>
   validationDetails (validateMessage asciiHost (VStr (lit ''test zeitslot''))) = []"
  by (simp add: zeitslot_keywords zeitslot_verdict)

section \<open>The guard against a second send within one minute\<close>

lemma div_bounds:
  "l \<le> (x::int) \<Longrightarrow> x \<le> u \<Longrightarrow> 0 < k \<Longrightarrow> l div k \<le> x div k \<and> x div k \<le> u div k"
  by (simp add: zdiv_mono1)

lemma civil_rough:
  fixes z :: int
  shows "400 * ((z + 719468) div 146097) - 1 \<le> fst (civilFromDays z) \<and>
         fst (civilFromDays z) \<le> 400 * ((z + 719468) div 146097) + 402 \<and>
         - 4814 \<le> fst (snd (civilFromDays z)) \<and> fst (snd (civilFromDays z)) \<le> 4805 \<and>
         - 400000 \<le> snd (snd (civilFromDays z)) \<and> snd (snd (civilFromDays z)) \<le> 400000"
proof -
  define era where "era = (z + 719468) div 146097"
  define doe where "doe = (z + 719468) - era * 146097"
  define yoe where "yoe = (doe - doe div 1460 + doe div 36524 - doe div 146096) div 365"
  define doy where "doy = doe - (365 * yoe + yoe div 4 - yoe div 100)"
  define mp where "mp = (5 * doy + 2) div 153"
  define d where "d = doy - (153 * mp + 2) div 5 + 1"
  define m where "m = (if mp < 10 then mp + 3 else mp - 9)"
  have doe: "0 \<le> doe" "doe \<le> 146096"
    unfolding doe_def era_def by (simp_all add: minus_div_mult_eq_mod)
  have a1: "0 \<le> doe div 1460 \<and> doe div 1460 \<le> 100"
    using div_bounds [OF doe, of 1460] by simp
  have a2: "0 \<le> doe div 36524 \<and> doe div 36524 \<le> 4"
    using div_bounds [OF doe, of 36524] by simp
  have a3: "0 \<le> doe div 146096 \<and> doe div 146096 \<le> 1"
    using div_bounds [OF doe, of 146096] by simp
  have n: "- 101 \<le> doe - doe div 1460 + doe div 36524 - doe div 146096"
     "doe - doe div 1460 + doe div 36524 - doe div 146096 \<le> 146100"
    using doe a1 a2 a3 by linarith+
  have yoe: "- 1 \<le> yoe" "yoe \<le> 400"
    unfolding yoe_def using div_bounds [OF n, of 365] by simp_all
  have b1: "- 1 \<le> yoe div 4 \<and> yoe div 4 \<le> 100"
    using div_bounds [OF yoe, of 4] by simp
  have b2: "- 1 \<le> yoe div 100 \<and> yoe div 100 \<le> 4"
    using div_bounds [OF yoe, of 100] by simp
  have doy: "- 147000 \<le> doy" "doy \<le> 147000"
    unfolding doy_def using doe yoe b1 b2 by linarith+
  have doy5: "- 734998 \<le> 5 * doy + 2" "5 * doy + 2 \<le> 735002"
    using doy by linarith+
  have mp: "- 4804 \<le> mp" "mp \<le> 4803"
    unfolding mp_def using div_bounds [OF doy5, of 153] by simp_all
  have mp153: "- 735010 \<le> 153 * mp + 2" "153 * mp + 2 \<le> 734861"
    using mp by linarith+
  have c1: "- 147002 \<le> (153 * mp + 2) div 5 \<and> (153 * mp + 2) div 5 \<le> 146972"
    using div_bounds [OF mp153, of 5] by simp
  have d: "- 400000 \<le> d" "d \<le> 400000"
    unfolding d_def using doy c1 by linarith+
  have m: "- 4813 \<le> m" "m \<le> 4806"
    unfolding m_def using mp by auto
  have eq: "civilFromDays z = (yoe + era * 400 + (if m \<le> 2 then 1 else 0), m - 1, d)"
    unfolding civilFromDays_def Let_def era_def doe_def yoe_def doy_def mp_def d_def m_def
    by (rule refl)
  have y: "400 * era - 1 \<le> yoe + era * 400 + (if m \<le> 2 then 1 else 0)"
    "yoe + era * 400 + (if m \<le> 2 then 1 else 0) \<le> 400 * era + 402"
    using yoe by (simp_all split: if_splits)
  show ?thesis
    unfolding eq era_def [symmetric] using y m d by simp
qed

lemma days_rough:
  fixes y0 mm :: int
  assumes mm: "1 \<le> mm" "mm \<le> 12"
    and lo: "400 * lo + 396 \<le> y0 - 1" and hi: "y0 \<le> 400 * hi + 302"
  shows "146097 * lo - 719472 \<le> daysFromCivil y0 mm 1 \<and>
         daysFromCivil y0 mm 1 \<le> 146097 * hi - 573000"
proof -
  define y where "y = y0 - (if mm \<le> 2 then 1 else 0)"
  define era where "era = y div 400"
  define yoe where "yoe = y - era * 400"
  define doy where "doy = (153 * (if mm > 2 then mm - 3 else mm + 9) + 2) div 5 + 1 - 1"
  define doe where "doe = yoe * 365 + yoe div 4 - yoe div 100 + doy"
  have yoe: "0 \<le> yoe" "yoe \<le> 399"
    unfolding yoe_def era_def by (simp_all add: minus_div_mult_eq_mod)
  have b1: "0 \<le> yoe div 4 \<and> yoe div 4 \<le> 99"
    using div_bounds [OF yoe, of 4] by simp
  have b2: "0 \<le> yoe div 100 \<and> yoe div 100 \<le> 3"
    using div_bounds [OF yoe, of 100] by simp
  have arg: "2 \<le> 153 * (if mm > 2 then mm - 3 else mm + 9) + 2"
    "153 * (if mm > 2 then mm - 3 else mm + 9) + 2 \<le> 1685"
    using mm by (simp_all split: if_splits)
  have doy: "0 \<le> doy" "doy \<le> 337"
    unfolding doy_def using div_bounds [OF arg, of 5] by simp_all
  have doe: "- 4 \<le> doe" "doe \<le> 146071"
    unfolding doe_def using yoe b1 b2 doy by linarith+
  have y: "y0 - 1 \<le> y" "y \<le> y0"
    unfolding y_def by simp_all
  have y': "400 * lo + 396 \<le> y" "y \<le> 400 * hi + 302"
    using y lo hi by linarith+
  have era: "lo \<le> era" "era \<le> hi"
    unfolding era_def using div_bounds [OF y', of 400] by simp_all
  have eq: "daysFromCivil y0 mm 1 = era * 146097 + doe - 719468"
    unfolding daysFromCivil_def Let_def era_def doe_def yoe_def doy_def y_def
    by (rule refl)
  show ?thesis
    unfolding eq using era doe by linarith
qed


lemma minuteOf_valid:
  assumes now: "\<bar>now\<bar> \<le> 8000000000000000" and tz: "\<bar>tzMinutes rt\<bar> \<le> 1440"
  shows "minuteOf rt (Some now) \<noteq> None"
proof -
  define lt where "lt = localTime rt now"
  define z where "z = lt div 86400000"
  define era where "era = (z + 719468) div 146097"
  define y where "y = fst (civilFromDays z)"
  define m where "m = fst (snd (civilFromDays z))"
  define d where "d = snd (snd (civilFromDays z))"
  define h where "h = (lt mod 86400000) div 3600000"
  define mi where "mi = (lt mod 3600000) div 60000"
  define yr where "yr = (if 0 \<le> y \<and> y \<le> 99 then 1900 + y else y)"
  define ym where "ym = yr + m div 12"
  define D where "D = daysFromCivil ym (m mod 12 + 1) 1"
  have lt: "- 8000000086400000 \<le> lt" "lt \<le> 8000000086400000"
    unfolding lt_def localTime_def msPerMinute_def using now tz by linarith+
  have z: "- 92592594 \<le> z" "z \<le> 92592593"
    unfolding z_def using div_bounds [OF lt, of 86400000] by simp_all
  have era: "146097 * era \<le> z + 719468" "z + 719468 \<le> 146097 * era + 146096"
    unfolding era_def by linarith+
  have civ: "400 * era - 1 \<le> y" "y \<le> 400 * era + 402" "- 4814 \<le> m" "m \<le> 4805"
    "- 400000 \<le> d" "d \<le> 400000"
    using civil_rough [of z] unfolding era_def y_def m_def d_def by simp_all
  have yr: "400 * era - 1 \<le> yr" "yr \<le> 400 * era + 2302"
    unfolding yr_def using civ by (simp_all split: if_splits)
  have m12: "- 402 \<le> m div 12" "m div 12 \<le> 400"
    using div_bounds [OF civ(3,4), of 12] by simp_all
  define q where "q = m div 12"
  have ymq: "ym = yr + q"
    by (simp add: ym_def q_def)
  have ym: "400 * (era - 2) + 396 \<le> ym - 1" "ym \<le> 400 * (era + 6) + 302"
    using yr m12 unfolding ymq q_def [symmetric] by simp_all
  have mn: "1 \<le> m mod 12 + 1" "m mod 12 + 1 \<le> 12"
    by simp_all
  have D: "146097 * (era - 2) - 719472 \<le> D" "D \<le> 146097 * (era + 6) - 573000"
    using days_rough [OF mn ym] unfolding D_def by simp_all
  have h: "0 \<le> h" "h \<le> 23"
    unfolding h_def by simp_all
  have mi: "0 \<le> mi" "mi \<le> 59"
    unfolding mi_def by simp_all
  have final: "\<bar>(D + d - 1) * 86400000 + h * 3600000 + mi * 60000 - tzMinutes rt * 60000\<bar>
                 \<le> 8640000000000000"
  proof -
    have day: "- 93430889 \<le> D + d - 1" "D + d - 1 \<le> 94015642"
      using D civ(5,6) era z by simp_all
    have big: "- 8072428809600000 \<le> (D + d - 1) * 86400000"
      "(D + d - 1) * 86400000 \<le> 8122951468800000"
      using day by simp_all
    have small: "0 \<le> h * 3600000" "h * 3600000 \<le> 82800000" "0 \<le> mi * 60000"
      "mi * 60000 \<le> 3540000" "- 86400000 \<le> tzMinutes rt * 60000"
      "tzMinutes rt * 60000 \<le> 86400000"
      using h mi tz by simp_all
    show ?thesis
      using big small by (simp add: abs_le_iff)
  qed
  have "minuteOf rt (Some now) =
          timeClip ((D + d - 1) * 86400000 + h * 3600000 + mi * 60000 - tzMinutes rt * 60000)"
    unfolding minuteOf_def makeDate_def getFullYear_def getMonth_def getDate_def getHours_def
      getMinutes_def yearOf_def monthOf_def dateOf_def hoursOf_def minutesOf_def
      msPerDay_def msPerHour_def msPerMinute_def
      D_def ym_def yr_def y_def m_def d_def h_def mi_def z_def lt_def
    by (simp add: Let_def)
  then show ?thesis
    using final by (simp add: timeClip_def)
qed


lemma day_of_minute: "(a::int) div 86400000 = (a div 60000) div 1440"
  using zdiv_zmult2_eq [of 1440 a 60000] by simp

lemma minute_of_minute: "((a::int) mod 3600000) div 60000 = (a div 60000) mod 60"
  using zmod_zmult2_eq [of 60 a 60000] by simp

lemma hour_of_minute: "((a::int) mod 86400000) div 3600000 = ((a div 60000) mod 1440) div 60"
proof -
  have "a mod 86400000 = 60000 * ((a div 60000) mod 1440) + a mod 60000"
    using zmod_zmult2_eq [of 1440 a 60000] by simp
  moreover have "(60000 * ((a div 60000) mod 1440) + a mod 60000) div 3600000 =
      ((60000 * ((a div 60000) mod 1440) + a mod 60000) div 60000) div 60"
    using zdiv_zmult2_eq [of 60 "60000 * ((a div 60000) mod 1440) + a mod 60000" 60000] by simp
  ultimately show ?thesis by simp
qed

lemma minuteOf_same:
  assumes "t div 60000 = now div 60000"
  shows "minuteOf rt (Some t) = minuteOf rt (Some now)"
proof -
  have "localTime rt t div 60000 = localTime rt now div 60000"
    using assms by (simp add: localTime_def msPerMinute_def)
  then have "localTime rt t div 86400000 = localTime rt now div 86400000"
    and "(localTime rt t mod 86400000) div 3600000 = (localTime rt now mod 86400000) div 3600000"
    and "(localTime rt t mod 3600000) div 60000 = (localTime rt now mod 3600000) div 60000"
    by (simp_all only: day_of_minute hour_of_minute minute_of_minute)
  then show ?thesis
    by (simp add: minuteOf_def getFullYear_def getMonth_def getDate_def getHours_def
        getMinutes_def yearOf_def monthOf_def dateOf_def hoursOf_def minutesOf_def
        msPerDay_def msPerHour_def msPerMinute_def)
qed

lemma sentThisMinute_same:
  assumes "t div 60000 = now div 60000"
    and "\<bar>now\<bar> \<le> 8000000000000000" and "\<bar>tzMinutes rt\<bar> \<le> 1440"
  shows "sentThisMinute rt now (LastSent (Some t))"
  using minuteOf_valid [OF assms(2,3)] minuteOf_same [OF assms(1), of rt]
  by (auto simp: sentThisMinute_def numEq_def)

lemma processRow_sent_this_minute:
  assumes "i < length data"
    and "sentThisMinute rt now (parseLastSent rt (cell (data ! i) COL_LAST_SENT))"
  shows "processRow rt e now data i w = Inr w"
  using assms by (simp add: processRow_def Let_def)

text \<open>
  C6. When the Last Sent cell of a row holds a valid instant in the same minute as the
  evaluation instant, the row is passed over: nothing is written or sent, whatever its
  repeat text is (the text is not even looked at), so the row is not due under any rule.
  The evaluation instant is taken within 8 * 10^15 ms of the epoch and the offset of the
  time zone within a day, which keeps the rebuilt minute a valid date.
\<close>

theorem same_minute_guard:
  assumes "i < length data"
    and "parseLastSent rt (cell (data ! i) COL_LAST_SENT) = LastSent (Some t)"
    and "t div 60000 = now div 60000"
    and "\<bar>now\<bar> \<le> 8000000000000000" and "\<bar>tzMinutes rt\<bar> \<le> 1440"
  shows "processRow rt e now data i w = Inr w \<and>
         \<not> isDue rt now start repeat (LastSent (Some t))"
  using processRow_sent_this_minute [OF assms(1), of rt now e w]
    sentThisMinute_same [OF assms(3-5)] assms(2)
  by (simp add: isDue_def)

theorem same_minute_guard_witness:
  "processRow asciiHost (steadyEnv 1709211840000) 1709211840000
     [[], [VDate (Some 1709211840000), VStr (lit ''test zeitslot''), VStr (lit ''daily''),
           VBool True, VDate (Some 1709211845123)]] 1 emptyWorld = Inr emptyWorld \<and>
   \<not> isDue asciiHost 1709211840000 (Some 1709211840000) (lit ''daily'')
       (LastSent (Some 1709211845123))"
  using same_minute_guard [of 1 "[[], [VDate (Some 1709211840000), VStr (lit ''test zeitslot''),
      VStr (lit ''daily''), VBool True, VDate (Some 1709211845123)]]" asciiHost 1709211845123
      1709211840000 "steadyEnv 1709211840000" emptyWorld "Some 1709211840000" "lit ''daily''"]
  by (simp add: cell_def column_defs parseLastSent_def textStartsWith_def newDate_def
      asciiHost_def)

section \<open>One-time rows\<close>

lemma shouldSend_one_time:
  assumes "isOneTime repeat"
  shows "shouldSend rt now start repeat lastSent =
           (exactDateMatch rt now start \<and> timeMatch rt now start)"
  using assms by (auto simp: shouldSend_def isOneTime_def lit_def)

lemma shouldSend_every_minute:
  "shouldSend rt now start (lit ''every minute'') lastSent =
     (case lastSent of
        NoLastSent \<Rightarrow> True
      | LastSent d \<Rightarrow> numGe (map_option (\<lambda>t. now - t) d) (Some 60000))"
  by (simp add: shouldSend_def isOneTime_def lit_def)

lemma exactDateMatch_self: "exactDateMatch rt now (Some now)"
  by (simp add: exactDateMatch_def numEq_def getFullYear_def getMonth_def getDate_def)

lemma timeMatch_self: "timeMatch rt now (Some now)"
  by (simp add: timeMatch_def numEq_def getHours_def getMinutes_def)

text \<open>
  C7, as the code has it. For a row whose repeat text is empty, \<open>don't\<close> or
  \<open>don't repeat\<close>, the rule \<open>shouldSend\<close> holds exactly when the evaluation instant and
  the scheduled instant agree in year, month, day, hour and minute, whatever the Last Sent
  cell holds. The row is due when, in addition, the guard against a second send within the
  minute does not hold it back: a last send in the minute of the evaluation instant makes
  the row not due.
\<close>

theorem one_time_due:
  assumes "isOneTime repeat"
  shows "shouldSend rt now start repeat lastSent =
           (exactDateMatch rt now start \<and> timeMatch rt now start) \<and>
         isDue rt now start repeat lastSent =
           (exactDateMatch rt now start \<and> timeMatch rt now start \<and>
            \<not> sentThisMinute rt now lastSent)"
  using shouldSend_one_time [OF assms] by (auto simp: isDue_def)

theorem one_time_due_witness:
  "isDue asciiHost 1709211840000 (Some 1709211840000) (lit ''don'' @ [39] @ lit ''t repeat'')
     NoLastSent \<and>
   shouldSend asciiHost 1709211840000 (Some 1709211840000) (lit ''don'' @ [39] @ lit ''t repeat'')
     (LastSent (Some 1709211840000))"
  using one_time_due [of "lit ''don'' @ [39] @ lit ''t repeat''" asciiHost 1709211840000
      "Some 1709211840000" NoLastSent]
    one_time_due [of "lit ''don'' @ [39] @ lit ''t repeat''" asciiHost 1709211840000
      "Some 1709211840000" "LastSent (Some 1709211840000)"]
    exactDateMatch_self [of asciiHost 1709211840000] timeMatch_self [of asciiHost 1709211840000]
  by (simp add: isOneTime_def sentThisMinute_def)

theorem one_time_same_minute_counterexample:
  "isOneTime [] \<and>
   exactDateMatch asciiHost 1709211840000 (Some 1709211840000) \<and>
   timeMatch asciiHost 1709211840000 (Some 1709211840000) \<and>
   isDue asciiHost 1709211840000 (Some 1709211840000) [] NoLastSent \<and>
   \<not> isDue asciiHost 1709211840000 (Some 1709211840000) [] (LastSent (Some 1709211840000)) \<and>
   processRow asciiHost (steadyEnv 1709211840000) 1709211840000
     [[], [VDate (Some 1709211840000), VStr (lit ''test zeitslot''), VStr [],
           VBool True, VDate (Some 1709211840000)]] 1 emptyWorld = Inr emptyWorld"
proof -
  have guard: "sentThisMinute asciiHost 1709211840000 (LastSent (Some 1709211840000))"
    by (rule sentThisMinute_same) (simp_all add: asciiHost_def)
  have one: "isOneTime []"
    by (simp add: isOneTime_def)
  have row: "processRow asciiHost (steadyEnv 1709211840000) 1709211840000
     [[], [VDate (Some 1709211840000), VStr (lit ''test zeitslot''), VStr [],
           VBool True, VDate (Some 1709211840000)]] 1 emptyWorld = Inr emptyWorld"
    using guard
    by (intro processRow_sent_this_minute)
      (simp_all add: cell_def column_defs parseLastSent_def textStartsWith_def newDate_def)
  show ?thesis
    using guard one row exactDateMatch_self [of asciiHost 1709211840000]
      timeMatch_self [of asciiHost 1709211840000]
    by (simp add: isDue_def shouldSend_one_time sentThisMinute_def)
qed

section \<open>Unparseable Last Sent values\<close>

lemma parseLastSent_unparseable:
  assumes "s \<noteq> []" and "\<not> startsWith s (lit ''ERROR:'')" and "dateParse rt s = None"
  shows "parseLastSent rt (VStr s) = LastSent None"
  using assms by (simp add: parseLastSent_def textStartsWith_def newDate_def)

lemma sentThisMinute_invalid: "\<not> sentThisMinute rt now (LastSent None)"
  by (simp add: sentThisMinute_def minuteOf_def makeDate_def getFullYear_def numEq_def
      split: option.splits)

lemma every_minute_never_again:
  "\<not> shouldSend rt now start (lit ''every minute'') (LastSent None)"
  by (simp add: shouldSend_every_minute numGe_def)

lemma every_minute_first: "shouldSend rt now start (lit ''every minute'') NoLastSent"
  by (simp add: shouldSend_every_minute)

lemma trim_every_minute:
  "trim (toLowerCase asciiHost (lit ''every minute'')) = lit ''every minute''"
  by (simp add: asciiHost_def char_defs string_defs)

lemma rate_limited_text:
  "lit ''RATE_LIMITED: Rate limit exceeded: 3 messages sent this hour (limit: 3)'' \<noteq> [] \<and>
   \<not> startsWith (lit ''RATE_LIMITED: Rate limit exceeded: 3 messages sent this hour (limit: 3)'')
       (lit ''ERROR:'')"
  by (simp add: startsWith_def lit_def)

text \<open>
  C5. A Last Sent value that does not parse as a date is to count as no previous send, so
  that an \<open>every minute\<close> row with such a value is due. The script sets \<open>lastSent\<close> to
  null only for texts that start with \<open>ERROR:\<close>; for any other text \<open>new Date\<close> does
  not throw but gives an Invalid Date, which is truthy and compares false with the
  60000 ms. On a row that the script itself marked \<open>RATE_LIMITED: ...\<close>, ten minutes
  later: the rule would hold with no previous send, it does not hold with the Invalid
  Date, and the row is passed over.
\<close>

theorem every_minute_stuck_after_rate_limit:
  "parseLastSent asciiHost
     (VStr (lit ''RATE_LIMITED: Rate limit exceeded: 3 messages sent this hour (limit: 3)'')) =
     LastSent None \<and>
   shouldSend asciiHost 1709212440000 (Some 1709211840000) (lit ''every minute'') NoLastSent \<and>
   \<not> shouldSend asciiHost 1709212440000 (Some 1709211840000) (lit ''every minute'')
       (LastSent None) \<and>
   processRow asciiHost (steadyEnv 1709212440000) 1709212440000
     [[], [VDate (Some 1709211840000), VStr (lit ''test zeitslot''), VStr (lit ''every minute''),
           VBool True,
           VStr (lit ''RATE_LIMITED: Rate limit exceeded: 3 messages sent this hour (limit: 3)'')]]
     1 emptyWorld = Inr emptyWorld"
proof -
  have parsed: "parseLastSent asciiHost
     (VStr (lit ''RATE_LIMITED: Rate limit exceeded: 3 messages sent this hour (limit: 3)'')) =
     LastSent None"
    using rate_limited_text by (intro parseLastSent_unparseable) (simp_all add: asciiHost_def)
  have "processRow asciiHost (steadyEnv 1709212440000) 1709212440000
     [[], [VDate (Some 1709211840000), VStr (lit ''test zeitslot''), VStr (lit ''every minute''),
           VBool True,
           VStr (lit ''RATE_LIMITED: Rate limit exceeded: 3 messages sent this hour (limit: 3)'')]]
     1 emptyWorld = Inr emptyWorld"
    using parsed trim_every_minute
    by (simp add: processRow_def Let_def cell_def column_defs isEnabled_def
        sentThisMinute_invalid every_minute_never_again)
  then show ?thesis
    using parsed by (simp add: every_minute_first every_minute_never_again)
qed

theorem every_minute_stuck_after_rate_limit_witness:
  "parseLastSent asciiHost
     (VStr (lit ''RATE_LIMITED: Rate limit exceeded: 3 messages sent this hour (limit: 3)'')) \<noteq>
     NoLastSent"
  using every_minute_stuck_after_rate_limit by simp

section \<open>Self-comparison in the duplicate detector\<close>

lemma civil_example: "civilFromDays 19782 = (2024, 1, 29)"
  unfolding civilFromDays_def Let_def by simp

lemma showNat_digit: "n < 10 \<Longrightarrow> showNat n = [48 + n]"
  by (simp add: showNat.simps)

lemma showNat_2024: "showNat 2024 = lit ''2024''"
  by (simp add: showNat.simps lit_def)

lemma replicate_small:
  "replicate 1 x = [x]" "replicate 2 x = [x, x]" "replicate 3 x = [x, x, x]"
  by (simp_all add: numeral_2_eq_2 numeral_3_eq_3)

lemma pad_examples:
  "padNat 4 2024 = lit ''2024''" "padNat 2 2 = lit ''02''" "padNat 2 29 = lit ''29''"
  "padNat 2 13 = lit ''13''" "padNat 2 4 = lit ''04''" "padNat 2 0 = lit ''00''"
  "padNat 3 0 = lit ''000''"
  by (simp_all add: padNat_def showNat.simps lit_def replicate_small)

lemma iso_example:
  "toISOString 1709211840000 = lit ''2024-02-29T13:04:00.000Z''"
proof -
  have d: "(1709211840000::int) div msPerDay = 19782"
    and ms: "(1709211840000::int) mod msPerDay = 47040000"
    by (simp_all add: msPerDay_def)
  have "toISOString 1709211840000 =
      padNat 4 2024 @ [45] @ padNat 2 2 @ [45] @ padNat 2 29 @ [84] @ padNat 2 13 @ [58] @
      padNat 2 4 @ [58] @ padNat 2 0 @ [46] @ padNat 3 0 @ [90]"
    by (simp add: toISOString_def d ms civil_example isoYear_def msPerHour_def msPerMinute_def)
  then show ?thesis
    by (simp add: pad_examples lit_def)
qed


lemma days_example: "daysFromCivil 2024 2 1 = 19754"
  unfolding daysFromCivil_def Let_def by simp

lemma fields_example:
  "yearOf asciiHost 1709211840000 = 2024" "monthOf asciiHost 1709211840000 = 1"
  "dateOf asciiHost 1709211840000 = 29" "hoursOf asciiHost 1709211840000 = 13"
  "minutesOf asciiHost 1709211840000 = 4" "weekdayOf asciiHost 1709211840000 = 4"
  by (simp_all add: yearOf_def monthOf_def dateOf_def hoursOf_def minutesOf_def weekdayOf_def
      localTime_def asciiHost_def msPerDay_def msPerHour_def msPerMinute_def civil_example)

lemma fields_later:
  "yearOf asciiHost 1709211960000 = 2024" "monthOf asciiHost 1709211960000 = 1"
  "dateOf asciiHost 1709211960000 = 29" "hoursOf asciiHost 1709211960000 = 13"
  "minutesOf asciiHost 1709211960000 = 6"
  by (simp_all add: yearOf_def monthOf_def dateOf_def hoursOf_def minutesOf_def
      localTime_def asciiHost_def msPerDay_def msPerHour_def msPerMinute_def civil_example)

lemma makeDate_example:
  "makeDate asciiHost (Some 2024) (Some 1) (Some 29) (Some 13) (Some mi) =
     timeClip (1709211600000 + mi * 60000)"
  unfolding makeDate_def Let_def
  by (simp add: days_example asciiHost_def msPerDay_def msPerHour_def msPerMinute_def)

lemma not_same_minute_example:
  "\<not> sentThisMinute asciiHost 1709211960000 (LastSent (Some 1709211840000))"
  by (simp add: sentThisMinute_def minuteOf_def getFullYear_def getMonth_def getDate_def
      getHours_def getMinutes_def fields_example fields_later makeDate_example timeClip_def
      numEq_def)


lemma zeitslot_normal:
  "normalizeContent asciiHost (lit ''test zeitslot'') = lit ''test zeitslot''"
  by (simp add: normalizeContent_def asciiHost_def char_defs string_defs)

lemma self_duplicate:
  "detectDuplicateContent asciiHost 1709211960000 (VStr (lit ''test zeitslot''))
     [[], [VDate (Some 1709211840000), VStr (lit ''test zeitslot''), VStr (lit ''every minute''),
           VBool True, VDate (Some 1709211840000)]] 1 =
   Inr \<lparr>isDuplicate = True,
        dupReason = lit ''Duplicate message detected: Same content was sent at '' @
                    lit ''2024-02-29T13:04:00.000Z''\<rparr>"
  using zeitslot_normal iso_example
  by (simp add: detectDuplicateContent_def cell_def column_defs newDate_def textStartsWith_def)

lemma documented_index_no_duplicate:
  "detectDuplicateContent asciiHost 1709211960000 (VStr (lit ''test zeitslot''))
     [[], [VDate (Some 1709211840000), VStr (lit ''test zeitslot''), VStr (lit ''every minute''),
           VBool True, VDate (Some 1709211840000)]] 0 = Inr noDuplicate"
  using zeitslot_normal
  by (simp add: detectDuplicateContent_def)

text \<open>
  C2. The detector is to leave the row of the entry itself out of the comparison. It skips
  the row at index \<open>currentRowIndex + 1\<close> of the data (its parameter is documented as
  0-based without the header row), and the scheduler passes the index of the row in the
  data, header included: the detector skips the row behind the entry and compares the
  entry with its own row. A sheet with one data row, an \<open>every minute\<close> entry sent two
  minutes before: the detector, called as the scheduler calls it, reports the entry as a
  duplicate of itself, and the scheduler writes the block instead of sending; called with
  the documented index it reports no duplicate.
\<close>

theorem row_flagged_as_duplicate_of_itself:
  "detectDuplicateContent asciiHost 1709211960000 (VStr (lit ''test zeitslot''))
     [[], [VDate (Some 1709211840000), VStr (lit ''test zeitslot''), VStr (lit ''every minute''),
           VBool True, VDate (Some 1709211840000)]] 1 =
   Inr \<lparr>isDuplicate = True,
        dupReason = lit ''Duplicate message detected: Same content was sent at '' @
                    lit ''2024-02-29T13:04:00.000Z''\<rparr> \<and>
   detectDuplicateContent asciiHost 1709211960000 (VStr (lit ''test zeitslot''))
     [[], [VDate (Some 1709211840000), VStr (lit ''test zeitslot''), VStr (lit ''every minute''),
           VBool True, VDate (Some 1709211840000)]] 0 = Inr noDuplicate \<and>
   processRow asciiHost (steadyEnv 1709211960000) 1709211960000
     [[], [VDate (Some 1709211840000), VStr (lit ''test zeitslot''), VStr (lit ''every minute''),
           VBool True, VDate (Some 1709211840000)]] 1 emptyWorld =
   Inr (emptyWorld
     \<lparr>lastSentWrites :=
        [(2, VStr (lit ''BLOCKED: '' @
                   lit ''Duplicate message detected: Same content was sent at '' @
                   lit ''2024-02-29T13:04:00.000Z''))],
      adminAlerts :=
        [(2, VStr (lit ''test zeitslot''),
          lit ''BLOCKED: '' @
          lit ''Duplicate message detected: Same content was sent at '' @
          lit ''2024-02-29T13:04:00.000Z'')]\<rparr>)"
proof -
  have "processRow asciiHost (steadyEnv 1709211960000) 1709211960000
     [[], [VDate (Some 1709211840000), VStr (lit ''test zeitslot''), VStr (lit ''every minute''),
           VBool True, VDate (Some 1709211840000)]] 1 emptyWorld =
     sendIfAllowed asciiHost (steadyEnv 1709211960000) 1709211960000
     [[], [VDate (Some 1709211840000), VStr (lit ''test zeitslot''), VStr (lit ''every minute''),
           VBool True, VDate (Some 1709211840000)]] 1 (VStr (lit ''test zeitslot'')) emptyWorld"
    using trim_every_minute not_same_minute_example
    by (simp add: processRow_def Let_def cell_def column_defs isEnabled_def parseLastSent_def
        textStartsWith_def newDate_def shouldSend_every_minute numGe_def)
  then show ?thesis
    using self_duplicate documented_index_no_duplicate
    by (simp add: sendIfAllowed_def steadyEnv_def setLastSent_def notifyAdmin_def emptyWorld_def
        Let_def numeral_2_eq_2)
qed

theorem row_flagged_as_duplicate_of_itself_witness:
  "detectDuplicateContent asciiHost 1709211960000 (VStr (lit ''test zeitslot''))
     [[], [VDate (Some 1709211840000), VStr (lit ''test zeitslot''), VStr (lit ''every minute''),
           VBool True, VDate (Some 1709211840000)]] 1 \<noteq> Inr noDuplicate"
  using row_flagged_as_duplicate_of_itself by (simp add: noDuplicate_def)

section \<open>The order of the stages\<close>

lemma checkRateLimit_cache: "snd (checkRateLimit rt now c) = c"
  by (simp add: checkRateLimit_def cacheGet_def Let_def)

lemma postMessage_sent:
  "sentMessages (postMessage rt e now i msg v w) = sentMessages w @ [msg]"
  by (simp add: postMessage_def setLastSent_def notifyAdmin_def Let_def split: tgresult.splits)

lemma postMessage_cache:
  "cache (postMessage rt e now i msg v w) =
     (case telegram e i of
        TgOk \<Rightarrow> incrementRateLimit rt (incClock e i) (cache w)
      | TgFail x \<Rightarrow> cache w)"
  by (simp add: postMessage_def setLastSent_def notifyAdmin_def Let_def split: tgresult.splits)

lemma block_keeps [simp]:
  "cache (notifyAdmin n msg txt (setLastSent n' v w)) = cache w"
  "sentMessages (notifyAdmin n msg txt (setLastSent n' v w)) = sentMessages w"
  by (simp_all add: notifyAdmin_def setLastSent_def)

lemma sendIfAllowed_stages:
  assumes "detectDuplicateContent rt (dupClock e i) msg data (int i) = Inr dup"
  shows "sendIfAllowed rt e now data i msg w =
     (if isDuplicate dup then
        Inr (notifyAdmin (i + 1) msg (lit ''BLOCKED: '' @ dupReason dup)
               (setLastSent (i + 1) (VStr (lit ''BLOCKED: '' @ dupReason dup)) w))
      else if \<not> isValid (validateMessage rt msg) then
        Inr (notifyAdmin (i + 1) msg (lit ''BLOCKED: '' @ reason (validateMessage rt msg))
               (setLastSent (i + 1)
                  (VStr (lit ''BLOCKED: '' @ reason (validateMessage rt msg))) w))
      else if \<not> isAllowed (fst (checkRateLimit rt (rateClock e i) (cache w))) then
        Inr (notifyAdmin (i + 1) msg
               (lit ''RATE_LIMITED: '' @
                rateReason (fst (checkRateLimit rt (rateClock e i) (cache w))))
               (setLastSent (i + 1)
                  (VStr (lit ''RATE_LIMITED: '' @
                         rateReason (fst (checkRateLimit rt (rateClock e i) (cache w))))) w))
      else Inr (postMessage rt e now i msg (validateMessage rt msg) w))"
  using assms checkRateLimit_cache [of rt "rateClock e i" "cache w"]
  by (simp add: sendIfAllowed_def Let_def split_def)

lemma processRow_stages:
  assumes "i < length data"
    and "truthy (cell (data ! i) COL_DATETIME)"
    and "cell (data ! i) COL_MESSAGE = VStr m"
    and "(if truthy (cell (data ! i) COL_REPEAT) then cell (data ! i) COL_REPEAT else VStr []) =
           VStr r"
  shows "processRow rt e now data i w =
     (if m = [] \<or> \<not> isEnabled rt (cell (data ! i) COL_ENABLED) then Inr w
      else if \<not> isDue rt now (setSeconds00 rt (newDate rt (cell (data ! i) COL_DATETIME)))
                   (trim (toLowerCase rt r))
                   (parseLastSent rt (cell (data ! i) COL_LAST_SENT)) then Inr w
      else sendIfAllowed rt e now data i (VStr m) w)"
  using assms by (simp add: processRow_def Let_def isDue_def)

text \<open>
  C1. For a row with a date, a text message and a text (or no) repeat pattern, in a sheet
  on which the duplicate scan raises nothing, the scheduler goes through the stages in this
  order: the row is passed over when the message is empty or the row is not enabled; then
  when it is not due (the Schedule Evaluator); a due row is blocked with the reason of the
  duplicate detector when that reports a duplicate; otherwise with the reason of the
  validator when the verdict is invalid; otherwise with the reason of the rate limiter when
  that does not allow the send; and only a row that passes all four is posted. The first
  stage that fails decides what is written, and the later stages have no say. The message
  is posted exactly when every stage passes.
\<close>

theorem pipeline_order:
  fixes rt :: runtime and e :: env and data :: "jsval list list" and w :: world
    and i :: nat and m :: jsstring
  defines "row \<equiv> data ! i"
  defines "start \<equiv> setSeconds00 rt (newDate rt (cell row COL_DATETIME))"
  defines "lastSent \<equiv> parseLastSent rt (cell row COL_LAST_SENT)"
  defines "verdict \<equiv> validateMessage rt (VStr m)"
  defines "rate \<equiv> fst (checkRateLimit rt (rateClock e i) (cache w))"
  assumes "i < length data"
    and "truthy (cell row COL_DATETIME)"
    and "cell row COL_MESSAGE = VStr m"
    and "(if truthy (cell row COL_REPEAT) then cell row COL_REPEAT else VStr []) = VStr r"
    and "detectDuplicateContent rt (dupClock e i) (VStr m) data (int i) = Inr dup"
  shows "processRow rt e now data i w =
     (if m = [] \<or> \<not> isEnabled rt (cell row COL_ENABLED) then Inr w
      else if \<not> isDue rt now start (trim (toLowerCase rt r)) lastSent then Inr w
      else if isDuplicate dup then
        Inr (notifyAdmin (i + 1) (VStr m) (lit ''BLOCKED: '' @ dupReason dup)
               (setLastSent (i + 1) (VStr (lit ''BLOCKED: '' @ dupReason dup)) w))
      else if \<not> isValid verdict then
        Inr (notifyAdmin (i + 1) (VStr m) (lit ''BLOCKED: '' @ reason verdict)
               (setLastSent (i + 1) (VStr (lit ''BLOCKED: '' @ reason verdict)) w))
      else if \<not> isAllowed rate then
        Inr (notifyAdmin (i + 1) (VStr m) (lit ''RATE_LIMITED: '' @ rateReason rate)
               (setLastSent (i + 1) (VStr (lit ''RATE_LIMITED: '' @ rateReason rate)) w))
      else Inr (postMessage rt e now i (VStr m) verdict w)) \<and>
   (\<exists>w'. processRow rt e now data i w = Inr w' \<and>
      (sentMessages w' \<noteq> sentMessages w) =
        (m \<noteq> [] \<and> isEnabled rt (cell row COL_ENABLED) \<and>
         isDue rt now start (trim (toLowerCase rt r)) lastSent \<and>
         \<not> isDuplicate dup \<and> isValid verdict \<and> isAllowed rate))"
  using processRow_stages [of i data m r rt e now w] assms(6-9)
    sendIfAllowed_stages [OF assms(10), of now w]
  unfolding row_def start_def lastSent_def verdict_def rate_def
  by (simp add: postMessage_sent)

lemma setSeconds_example:
  "setSeconds00 asciiHost (Some 1709211840000) = Some 1709211840000"
  unfolding setSeconds00_def Let_def
  by (simp add: localTime_def asciiHost_def msPerMinute_def timeClip_def)

lemma trim_daily: "trim (toLowerCase asciiHost (lit ''daily'')) = lit ''daily''"
  by (simp add: asciiHost_def char_defs string_defs)

lemma shouldSend_daily:
  "shouldSend rt now start (lit ''daily'') lastSent = timeMatch rt now start"
  by (simp add: shouldSend_def isOneTime_def lit_def)

lemma daily_no_duplicate:
  "detectDuplicateContent asciiHost 1709211840000 (VStr (lit ''test zeitslot''))
     [[], [VDate (Some 1709211840000), VStr (lit ''test zeitslot''), VStr (lit ''daily''),
           VBool True, VStr []]] 1 = Inr noDuplicate"
  using zeitslot_normal
  by (simp add: detectDuplicateContent_def cell_def column_defs)

lemma parseInt_small:
  "parseInt (lit ''0'') = Some 0" "parseInt (lit ''1'') = Some 1"
  "parseInt (lit ''2'') = Some 2" "parseInt (lit ''3'') = Some 3"
  unfolding parseInt_def parseDigits_def Let_def
  by (simp_all add: digitValue_def char_defs string_defs)

lemma showNum_small:
  "showNum (Some 1) = lit ''1''" "showNum (Some 2) = lit ''2''" "showNum (Some 3) = lit ''3''"
  by (simp_all add: showNum_def showInt_def showNat.simps lit_def)

lemma empty_cache_allows: "isAllowed (fst (checkRateLimit rt now (\<lambda>k. None)))"
  using parseInt_small(1)
  by (simp add: checkRateLimit_def cacheGet_def orZero_def numGe_def Let_def
      MAX_MESSAGES_PER_HOUR_def MAX_MESSAGES_PER_DAY_def)

lemma daily_row_posted:
  "processRow asciiHost (steadyEnv 1709211840000) 1709211840000
     [[], [VDate (Some 1709211840000), VStr (lit ''test zeitslot''), VStr (lit ''daily''),
           VBool True, VStr []]] 1 emptyWorld =
   Inr (postMessage asciiHost (steadyEnv 1709211840000) 1709211840000 1
          (VStr (lit ''test zeitslot''))
          (validateMessage asciiHost (VStr (lit ''test zeitslot''))) emptyWorld)"
proof -
  have "processRow asciiHost (steadyEnv 1709211840000) 1709211840000
     [[], [VDate (Some 1709211840000), VStr (lit ''test zeitslot''), VStr (lit ''daily''),
           VBool True, VStr []]] 1 emptyWorld =
     sendIfAllowed asciiHost (steadyEnv 1709211840000) 1709211840000
     [[], [VDate (Some 1709211840000), VStr (lit ''test zeitslot''), VStr (lit ''daily''),
           VBool True, VStr []]] 1 (VStr (lit ''test zeitslot'')) emptyWorld"
    using trim_daily setSeconds_example timeMatch_self [of asciiHost 1709211840000]
    by (simp add: processRow_def Let_def cell_def column_defs isEnabled_def parseLastSent_def
        newDate_def sentThisMinute_def shouldSend_daily)
  also have "\<dots> = Inr (postMessage asciiHost (steadyEnv 1709211840000) 1709211840000 1
          (VStr (lit ''test zeitslot''))
          (validateMessage asciiHost (VStr (lit ''test zeitslot''))) emptyWorld)"
    using daily_no_duplicate zeitslot_verdict
      empty_cache_allows [of asciiHost 1709211840000]
    by (subst sendIfAllowed_stages [of _ _ _ _ _ noDuplicate])
      (simp_all add: steadyEnv_def noDuplicate_def emptyWorld_def)
  finally show ?thesis .
qed

theorem pipeline_order_witness:
  "processRow asciiHost (steadyEnv 1709211840000) 1709211840000
     [[], [VDate (Some 1709211840000), VStr (lit ''test zeitslot''), VStr (lit ''daily''),
           VBool True, VStr []]] 1 emptyWorld =
   Inr (postMessage asciiHost (steadyEnv 1709211840000) 1709211840000 1
          (VStr (lit ''test zeitslot''))
          (validateMessage asciiHost (VStr (lit ''test zeitslot''))) emptyWorld) \<and>
   sentMessages (postMessage asciiHost (steadyEnv 1709211840000) 1709211840000 1
          (VStr (lit ''test zeitslot''))
          (validateMessage asciiHost (VStr (lit ''test zeitslot''))) emptyWorld) =
     [VStr (lit ''test zeitslot'')]"
  using pipeline_order [of 1 "[[], [VDate (Some 1709211840000), VStr (lit ''test zeitslot''),
      VStr (lit ''daily''), VBool True, VStr []]]" "lit ''test zeitslot''" "lit ''daily''"
      asciiHost "steadyEnv 1709211840000" noDuplicate 1709211840000 emptyWorld]
    daily_no_duplicate daily_row_posted
  by (simp add: postMessage_sent emptyWorld_def)

section \<open>The rate limiter\<close>

lemma checkRateLimit_hourCount:
  "hourCount (fst (checkRateLimit rt now c)) =
     parseInt (orZero (fst (cacheGet (hourKey rt now) now c)))"
  by (simp add: checkRateLimit_def cacheGet_def Let_def)

lemma checkRateLimit_hour_ceiling:
  assumes "numGe (hourCount (fst (checkRateLimit rt now c))) (Some MAX_MESSAGES_PER_HOUR)"
  shows "\<not> isAllowed (fst (checkRateLimit rt now c))"
    and "rateReason (fst (checkRateLimit rt now c)) =
           lit ''Rate limit exceeded: '' @ showNum (hourCount (fst (checkRateLimit rt now c))) @
           lit '' messages sent this hour (limit: 3)''"
proof -
  have three: "showInt MAX_MESSAGES_PER_HOUR = lit ''3''"
    by (simp add: showInt_def MAX_MESSAGES_PER_HOUR_def showNat.simps lit_def)
  show "\<not> isAllowed (fst (checkRateLimit rt now c))"
    using assms by (simp add: checkRateLimit_def cacheGet_def Let_def split: if_splits)
  show "rateReason (fst (checkRateLimit rt now c)) =
           lit ''Rate limit exceeded: '' @ showNum (hourCount (fst (checkRateLimit rt now c))) @
           lit '' messages sent this hour (limit: 3)''"
    using assms three
    by (simp add: checkRateLimit_def cacheGet_def Let_def lit_def split: if_splits)
qed

lemma sendIfAllowed_cache:
  assumes "sendIfAllowed rt e now data i msg w = Inr w'"
  shows "cache w' = cache w \<or>
         (telegram e i = TgOk \<and> cache w' = incrementRateLimit rt (incClock e i) (cache w) \<and>
          sentMessages w' = sentMessages w @ [msg])"
proof (cases "detectDuplicateContent rt (dupClock e i) msg data (int i)")
  case (Inl x)
  then show ?thesis using assms by (simp add: sendIfAllowed_def)
next
  case (Inr dup)
  show ?thesis
    using assms unfolding sendIfAllowed_stages [OF Inr]
    by (auto simp: postMessage_sent postMessage_cache split: if_splits tgresult.splits)
qed

lemma processRow_cache:
  assumes "processRow rt e now data i w = Inr w'"
  shows "cache w' = cache w \<or>
         (telegram e i = TgOk \<and> cache w' = incrementRateLimit rt (incClock e i) (cache w) \<and>
          sentMessages w' = sentMessages w @ [cell (data ! i) COL_MESSAGE])"
  using assms sendIfAllowed_cache [of rt e now data i "cell (data ! i) COL_MESSAGE" w w']
  by (auto simp: processRow_def Let_def split: if_splits jsval.splits)

lemma showInt_fields:
  "showInt 2024 = lit ''2024''" "showInt 1 = lit ''1''" "showInt 29 = lit ''29''"
  "showInt 13 = lit ''13''"
  by (simp_all add: showInt_def showNat.simps lit_def)

lemma key_examples:
  "hourKey asciiHost 1709211840000 = lit ''rate_hour_2024_1_29_13''"
  "dayKey asciiHost 1709211840000 = lit ''rate_day_2024_1_29''"
  "hourKey asciiHost 1709211960000 = lit ''rate_hour_2024_1_29_13''"
  "dayKey asciiHost 1709211960000 = lit ''rate_day_2024_1_29''"
  by (simp_all add: hourKey_def dayKey_def fields_example fields_later showInt_fields)
    (simp_all add: lit_def)

lemma keys_differ: "lit ''rate_hour_2024_1_29_13'' \<noteq> lit ''rate_day_2024_1_29''"
  by (simp add: lit_def)

lemma incrementRateLimit_example:
  assumes "parseInt (orZero (fst (cacheGet (lit ''rate_hour_2024_1_29_13'') 1709211840000 c))) =
             Some h"
    and "parseInt (orZero (fst (cacheGet (lit ''rate_day_2024_1_29'') 1709211840000 c))) = Some d"
  shows "incrementRateLimit asciiHost 1709211840000 c =
           c(lit ''rate_hour_2024_1_29_13'' \<mapsto> (showNum (Some (h + 1)), 1709215440000),
             lit ''rate_day_2024_1_29'' \<mapsto> (showNum (Some (d + 1)), 1709233440000))"
  using assms
  by (simp add: incrementRateLimit_def cacheGet_def cachePut_def key_examples Let_def)

lemma threeSends_hour:
  "fst (cacheGet (lit ''rate_hour_2024_1_29_13'') 1709211960000 threeSends) = Some (lit ''3'')"
proof -
  let ?hk = "lit ''rate_hour_2024_1_29_13''" and ?dk = "lit ''rate_day_2024_1_29''"
  define c1 where "c1 = incrementRateLimit asciiHost 1709211840000 (\<lambda>k. None)"
  define c2 where "c2 = incrementRateLimit asciiHost 1709211840000 c1"
  have c1: "c1 = (\<lambda>k. None)(?hk \<mapsto> (lit ''1'', 1709215440000), ?dk \<mapsto> (lit ''1'', 1709233440000))"
    unfolding c1_def
    by (subst incrementRateLimit_example [of _ 0 0])
      (simp_all add: cacheGet_def orZero_def parseInt_small showNum_small)
  have c2: "c2 = c1(?hk \<mapsto> (lit ''2'', 1709215440000), ?dk \<mapsto> (lit ''2'', 1709233440000))"
    unfolding c2_def using keys_differ
    by (subst incrementRateLimit_example [of _ 1 1])
      (simp_all add: c1 cacheGet_def orZero_def parseInt_small showNum_small)
  have c3: "threeSends = c2(?hk \<mapsto> (lit ''3'', 1709215440000), ?dk \<mapsto> (lit ''3'', 1709233440000))"
    unfolding threeSends_def c1_def [symmetric] c2_def [symmetric] using keys_differ
    by (subst incrementRateLimit_example [of _ 2 2])
      (simp_all add: c2 cacheGet_def orZero_def parseInt_small showNum_small)
  show ?thesis
    using keys_differ by (simp add: c3 cacheGet_def)
qed

text \<open>
  C8. \<open>checkRateLimit\<close> hands back the cache it was given; its hour count is what
  \<open>parseInt\<close> reads from the entry of the current hour (or from \<open>0\<close>), and whenever
  that count reaches the ceiling of 3 the answer is not allowed, with the reason naming the
  count and the hourly limit. One iteration of the scheduler leaves the cache as it was,
  unless the post of the row was answered with ok: then, and only then, the cache is the
  one \<open>incrementRateLimit\<close> returns, and the message was posted.
\<close>

theorem checkRateLimit_read_only:
  "snd (checkRateLimit rt now c) = c \<and>
   hourCount (fst (checkRateLimit rt now c)) =
     parseInt (orZero (fst (cacheGet (hourKey rt now) now c))) \<and>
   MAX_MESSAGES_PER_HOUR = 3 \<and>
   (numGe (hourCount (fst (checkRateLimit rt now c))) (Some MAX_MESSAGES_PER_HOUR) \<longrightarrow>
      \<not> isAllowed (fst (checkRateLimit rt now c)) \<and>
      rateReason (fst (checkRateLimit rt now c)) =
        lit ''Rate limit exceeded: '' @ showNum (hourCount (fst (checkRateLimit rt now c))) @
        lit '' messages sent this hour (limit: 3)'') \<and>
   (processRow rt e now' data i w = Inr w' \<longrightarrow>
      cache w' = cache w \<or>
      (telegram e i = TgOk \<and>
       cache w' = incrementRateLimit rt (incClock e i) (cache w) \<and>
       sentMessages w' = sentMessages w @ [cell (data ! i) COL_MESSAGE]))"
  using checkRateLimit_hour_ceiling [of rt now c] processRow_cache [of rt e now' data i w w']
  by (simp add: checkRateLimit_cache checkRateLimit_hourCount MAX_MESSAGES_PER_HOUR_def)

theorem checkRateLimit_read_only_witness:
  "snd (checkRateLimit asciiHost 1709211960000 threeSends) = threeSends \<and>
   hourCount (fst (checkRateLimit asciiHost 1709211960000 threeSends)) = Some 3 \<and>
   \<not> isAllowed (fst (checkRateLimit asciiHost 1709211960000 threeSends)) \<and>
   rateReason (fst (checkRateLimit asciiHost 1709211960000 threeSends)) =
     lit ''Rate limit exceeded: '' @ lit ''3'' @ lit '' messages sent this hour (limit: 3)'' \<and>
   cache (postMessage asciiHost (steadyEnv 1709211840000) 1709211840000 1
          (VStr (lit ''test zeitslot''))
          (validateMessage asciiHost (VStr (lit ''test zeitslot''))) emptyWorld) =
     incrementRateLimit asciiHost 1709211840000 (cache emptyWorld)"
  using checkRateLimit_read_only [of asciiHost 1709211960000 threeSends
      "steadyEnv 1709211840000" 1709211840000
      "[[], [VDate (Some 1709211840000), VStr (lit ''test zeitslot''), VStr (lit ''daily''),
           VBool True, VStr []]]" 1 emptyWorld
      "postMessage asciiHost (steadyEnv 1709211840000) 1709211840000 1
          (VStr (lit ''test zeitslot''))
          (validateMessage asciiHost (VStr (lit ''test zeitslot''))) emptyWorld"]
    daily_row_posted threeSends_hour
  by (simp add: key_examples orZero_def parseInt_small showNum_small numGe_def
      postMessage_cache steadyEnv_def MAX_MESSAGES_PER_HOUR_def)

end
